theory Spec2Isabelle
  imports Main
begin

section \<open>The chart state engine (server/spectralsequence\_chart/chart.py)\<close>

subsection \<open>Objects, references and the store\<close>

text \<open>
  Python passes chart nodes, classes and edges by reference, and the engine assigns to
  their attributes (\<^verbatim>\<open>node.idx = ...\<close>, \<^verbatim>\<open>source._edges.append(e)\<close>): the same object can
  stand in several lists. A reference is an address, and the store maps every address to
  the object that lives there; \<open>next_ref\<close> is the first address no constructor has
  handed out yet.
\<close>

type_synonym ref = nat

type_synonym page_range = "int \<times> int"

datatype pyval = PyInt int | PyStr string | PyNone

type_synonym kwargs = "(string \<times> pyval) list"

datatype edge_type = ChartStructline | ChartDifferential | ChartExtension

text \<open>
  Modelled from the spec: the classes ChartNode, ChartClass and the three edge classes
  (module chart\_elements) are not among the sources. A node is a rendering primitive with
  a shape; a class has an integer bidegree, a sequential id assigned when it is appended,
  a node list, the pages it participates on and the list of its incident edges; an edge
  has an id, a type tag, a source class, a target class and, for a differential, a page.
  An id that has not been assigned yet is \<open>None\<close>. Keyword fields given to a constructor
  and attributes assigned later (\<^verbatim>\<open>d.color = "blue"\<close>) are kept in \<open>attrs\<close>.
\<close>

record chart_node =
  shape :: string
  idx :: "nat option"

record chart_class =
  class_x :: int
  class_y :: int
  class_id :: "nat option"
  node_list :: "nat list"
  class_pages :: "int list"
  class_edges :: "ref list"
  class_attrs :: kwargs

record chart_edge =
  etype :: edge_type
  edge_id :: "nat option"
  edge_source :: ref
  edge_target :: ref
  edge_page :: "int option"
  edge_attrs :: kwargs

record store =
  node_at :: "ref \<Rightarrow> chart_node"
  class_at :: "ref \<Rightarrow> chart_class"
  edge_at :: "ref \<Rightarrow> chart_edge"
  next_ref :: ref

subsection \<open>Outbound messages\<close>

text \<open>
  Modelled from the spec: \<^verbatim>\<open>send_message_outward_a\<close> belongs to the Agent base class,
  which is not among the sources; it emits one outbound Envelope. The model appends the
  command and its payload to the log \<open>sent\<close> of the chart agent. The batch of
  \<^verbatim>\<open>chart.class.update\<close> is \<^verbatim>\<open>list(set)\<close>, whose order Python leaves open: the payload
  is the set itself.
\<close>

text \<open>
  The text of \<^verbatim>\<open>interact.mode.set_info\<close>. The f-string \<^verbatim>\<open>Current source: "{c}".\<close> prints
  the class through \<^verbatim>\<open>ChartClass.__str__\<close>, which is not among the sources: the model
  keeps the class.
\<close>

datatype info = CurrentSource ref | InfoText string

datatype payload =
    NodeArgs ref
  | PageRangeArgs page_range nat
  | ClassArgs ref
  | UpdateArgs "ref set"
  | EdgeArgs edge_type "nat option" "nat option" "nat option" kwargs
  | InfoArgs info
  | PromptArgs string pyval
  | NoArgs

type_synonym message = "string \<times> payload"

subsection \<open>ChartData and the chart agent\<close>

definition INFINITY :: int where
  "INFINITY = 65535"

record chart_data =
  name :: string
  initial_x_range :: "int \<times> int"
  initial_y_range :: "int \<times> int"
  page_list :: "page_range list"
  min_page_idx :: nat
  nodes :: "ref list"
  nodes_dict :: "int \<rightharpoonup> ref"
  classes :: "ref list"
  classes_by_bidegree :: "(int \<times> int) \<rightharpoonup> ref list"
  edges :: "ref list"
  updated_elements :: "ref set"

record spectral_sequence_chart =
  data :: chart_data
  objs :: store
  background_color :: string
  sent :: "message list"

text \<open>Attribute assignment on the object behind a reference.\<close>

definition upd_node :: "ref \<Rightarrow> (chart_node \<Rightarrow> chart_node) \<Rightarrow> store \<Rightarrow> store" where
  "upd_node r f st = st\<lparr>node_at := (node_at st)(r := f (node_at st r))\<rparr>"

definition upd_class :: "ref \<Rightarrow> (chart_class \<Rightarrow> chart_class) \<Rightarrow> store \<Rightarrow> store" where
  "upd_class r f st = st\<lparr>class_at := (class_at st)(r := f (class_at st r))\<rparr>"

definition upd_edge :: "ref \<Rightarrow> (chart_edge \<Rightarrow> chart_edge) \<Rightarrow> store \<Rightarrow> store" where
  "upd_edge r f st = st\<lparr>edge_at := (edge_at st)(r := f (edge_at st r))\<rparr>"

text \<open>The constructors allocate the next free address.\<close>

definition ChartNode_new :: "string \<Rightarrow> store \<Rightarrow> ref \<times> store" where
  "ChartNode_new sh st =
     (next_ref st,
      st\<lparr>node_at := (node_at st)(next_ref st := \<lparr>shape = sh, idx = None\<rparr>),
         next_ref := Suc (next_ref st)\<rparr>)"

definition ChartClass_new :: "int \<Rightarrow> int \<Rightarrow> nat list \<Rightarrow> kwargs \<Rightarrow> store \<Rightarrow> ref \<times> store" where
  "ChartClass_new cx cy nl kw st =
     (next_ref st,
      st\<lparr>class_at := (class_at st)(next_ref st :=
           \<lparr>class_x = cx, class_y = cy, class_id = None, node_list = nl,
            class_pages = [], class_edges = [], class_attrs = kw\<rparr>),
         next_ref := Suc (next_ref st)\<rparr>)"

definition ChartEdge_new ::
  "edge_type \<Rightarrow> int option \<Rightarrow> ref \<Rightarrow> ref \<Rightarrow> kwargs \<Rightarrow> store \<Rightarrow> ref \<times> store" where
  "ChartEdge_new ty pg src tgt kw st =
     (next_ref st,
      st\<lparr>edge_at := (edge_at st)(next_ref st :=
           \<lparr>etype = ty, edge_id = None, edge_source = src, edge_target = tgt,
            edge_page = pg, edge_attrs = kw\<rparr>),
         next_ref := Suc (next_ref st)\<rparr>)"

text \<open>
  \<^verbatim>\<open>ChartData.__init__\<close>. The hash of a node (\<^verbatim>\<open>ChartNode.__hash__\<close>) is not among the
  sources and is a parameter, as is the store the chart is created in.
\<close>

definition ChartData_init ::
  "(ref \<Rightarrow> chart_node \<Rightarrow> int) \<Rightarrow> string \<Rightarrow> store \<Rightarrow> chart_data \<times> store" where
  "ChartData_init hash nm st =
     (let (default_node, st1) = ChartNode_new ''circle'' st;
          st2 = upd_node default_node (\<lambda>n. n\<lparr>idx := Some 0\<rparr>) st1
      in (\<lparr>name = nm,
           initial_x_range = (0, 10),
           initial_y_range = (0, 10),
           page_list = [(2, INFINITY), (INFINITY, INFINITY)],
           min_page_idx = 0,
           nodes = [default_node],
           nodes_dict = [hash default_node (node_at st2 default_node) \<mapsto> default_node],
           classes = [],
           classes_by_bidegree = Map.empty,
           edges = [],
           updated_elements = {}\<rparr>, st2))"

definition add_element_to_update :: "ref \<Rightarrow> chart_data \<Rightarrow> chart_data" where
  "add_element_to_update e d = d\<lparr>updated_elements := insert e (updated_elements d)\<rparr>"

definition default_background_color :: string where
  "default_background_color = ''#FFFFFF''"

definition SpectralSequenceChart_init ::
  "(ref \<Rightarrow> chart_node \<Rightarrow> int) \<Rightarrow> string \<Rightarrow> store \<Rightarrow> spectral_sequence_chart" where
  "SpectralSequenceChart_init hash nm st =
     (let (d, st1) = ChartData_init hash nm st
      in \<lparr>data = d, objs = st1, background_color = default_background_color, sent = []\<rparr>)"

definition broadcast_a :: "string \<Rightarrow> payload \<Rightarrow> spectral_sequence_chart \<Rightarrow> spectral_sequence_chart" where
  "broadcast_a cmd args s = s\<lparr>sent := sent s @ [(cmd, args)]\<rparr>"

subsection \<open>Exceptions\<close>

text \<open>
  An exception is a value. A \<^verbatim>\<open>TypeError\<close> carries the name of the function whose call
  Python refused; the wording of its message is not modelled.
\<close>

datatype error = RuntimeError string | KeyError string | TypeError string

text \<open>
  The keyword fields of \<^verbatim>\<open>**kwargs\<close> that repeat a name the call already binds (an explicit
  keyword, or a parameter filled positionally). Python refuses a call with such a field:
  TypeError, "got multiple values".
\<close>

definition repeated :: "string list \<Rightarrow> kwargs \<Rightarrow> string list" where
  "repeated names kw = filter (\<lambda>k. k \<in> set names) (map fst kw)"

subsection \<open>The operations\<close>

definition add_node_a :: "ref \<Rightarrow> spectral_sequence_chart \<Rightarrow> spectral_sequence_chart" where
  "add_node_a node s =
     (let s1 = s\<lparr>objs := upd_node node (\<lambda>n. n\<lparr>idx := Some (length (nodes (data s)))\<rparr>) (objs s)\<rparr>;
          s2 = s1\<lparr>data := (data s1)\<lparr>nodes := nodes (data s1) @ [node]\<rparr>\<rparr>
      in broadcast_a ''chart.node.add'' (NodeArgs node) s2)"

text \<open>
  The loop of \<^verbatim>\<open>add_page_range_a\<close>: \<^verbatim>\<open>for (i, p) in enumerate(page_list)\<close>, leaving with
  \<^verbatim>\<open>idx = i\<close> at the first \<^verbatim>\<open>p[0] > page_range[0]\<close>; \<open>None\<close> is the \<^verbatim>\<open>else\<close> branch of
  the loop.
\<close>

fun find_page_idx :: "nat \<Rightarrow> page_range list \<Rightarrow> page_range \<Rightarrow> nat option" where
  "find_page_idx i [] r = None"
| "find_page_idx i (p # ps) r = (if fst p > fst r then Some i else find_page_idx (Suc i) ps r)"

text \<open>\<^verbatim>\<open>list.insert(i, x)\<close> for \<open>0 \<le> i\<close>: an index past the end appends.\<close>

definition list_insert :: "'a list \<Rightarrow> nat \<Rightarrow> 'a \<Rightarrow> 'a list" where
  "list_insert xs i v = take i xs @ v # drop i xs"

text \<open>
  The membership test is made twice, outside and inside the lock; run sequentially, the
  lock itself is no step of the model.
\<close>

definition add_page_range_a :: "page_range \<Rightarrow> spectral_sequence_chart \<Rightarrow> spectral_sequence_chart" where
  "add_page_range_a r s =
     (if r \<in> set (page_list (data s)) then s
      else if r \<in> set (page_list (data s)) then s
      else
        let i = (case find_page_idx 0 (page_list (data s)) r of
                   Some i \<Rightarrow> i
                 | None \<Rightarrow> length (page_list (data s)));
            s1 = s\<lparr>data := (data s)\<lparr>page_list := list_insert (page_list (data s)) i r\<rparr>\<rparr>
        in broadcast_a ''chart.insert_page_range'' (PageRangeArgs r i) s1)"

text \<open>
  \<^verbatim>\<open>add_class_a\<close>. \<^verbatim>\<open>kwargs.update\<close> overwrites a \<^verbatim>\<open>node_list\<close> keyword with \<^verbatim>\<open>[0]\<close>;
  \<^verbatim>\<open>ChartClass.set_field_a\<close>, awaited when a \<^verbatim>\<open>color\<close> keyword is given, is not among the
  sources and is a parameter. The last \<^verbatim>\<open>kwargs.update\<close> changes a dictionary nobody
  reads again. (The names \<^verbatim>\<open>x\<close> and \<^verbatim>\<open>y\<close> are parameters of \<^verbatim>\<open>add_class_a\<close> and never
  reach \<^verbatim>\<open>**kwargs\<close>.)
\<close>

definition add_class_a ::
  "(ref \<Rightarrow> string \<Rightarrow> pyval \<Rightarrow> spectral_sequence_chart \<Rightarrow> spectral_sequence_chart) \<Rightarrow>
   int \<Rightarrow> int \<Rightarrow> kwargs \<Rightarrow> spectral_sequence_chart \<Rightarrow> ref \<times> spectral_sequence_chart" where
  "add_class_a set_field_a cx cy kw s =
     (let (c, st1) = ChartClass_new cx cy [0] (filter (\<lambda>(k, v). k \<noteq> ''node_list'') kw) (objs s);
          s1 = s\<lparr>objs := st1\<rparr>;
          s2 = (case map_of kw ''color'' of
                  Some col \<Rightarrow> set_field_a c ''color'' col s1
                | None \<Rightarrow> s1);
          s3 = s2\<lparr>objs := upd_class c (\<lambda>ob. ob\<lparr>class_id := Some (length (classes (data s2)))\<rparr>) (objs s2)\<rparr>;
          s4 = s3\<lparr>data := (data s3)\<lparr>classes := classes (data s3) @ [c]\<rparr>\<rparr>;
          pos = (class_x (class_at (objs s4) c), class_y (class_at (objs s4) c));
          s5 = (if classes_by_bidegree (data s4) pos = None
                then s4\<lparr>data := (data s4)\<lparr>classes_by_bidegree := (classes_by_bidegree (data s4))(pos \<mapsto> [])\<rparr>\<rparr>
                else s4);
          s6 = s5\<lparr>data := (data s5)\<lparr>classes_by_bidegree :=
                  (classes_by_bidegree (data s5))(pos \<mapsto> the (classes_by_bidegree (data s5) pos) @ [c])\<rparr>\<rparr>
      in (c, broadcast_a ''chart.class.add'' (ClassArgs c) s6))"

definition update_a :: "spectral_sequence_chart \<Rightarrow> spectral_sequence_chart" where
  "update_a s =
     (let s1 = broadcast_a ''chart.class.update'' (UpdateArgs (updated_elements (data s))) s
      in s1\<lparr>data := (data s1)\<lparr>updated_elements := {}\<rparr>\<rparr>)"

text \<open>
  \<^verbatim>\<open>add_edge_a\<close>. The edge is numbered, appended and linked to its endpoints before the
  payload of the broadcast is built. \<^verbatim>\<open>arguments(type=, id=, source=, target=, **kwargs)\<close>
  raises TypeError when a keyword field repeats one of these four names, and then nothing
  is sent. The result is the error raised or the edge returned, together with the state the
  call leaves in either case.
\<close>

definition add_edge_a ::
  "ref \<Rightarrow> kwargs \<Rightarrow> spectral_sequence_chart \<Rightarrow> (error + ref) \<times> spectral_sequence_chart" where
  "add_edge_a e kw s =
     (let s1 = s\<lparr>objs := upd_edge e (\<lambda>ob. ob\<lparr>edge_id := Some (length (edges (data s)))\<rparr>) (objs s)\<rparr>;
          source = edge_source (edge_at (objs s1) e);
          target = edge_target (edge_at (objs s1) e);
          s2 = s1\<lparr>data := (data s1)\<lparr>edges := edges (data s1) @ [e]\<rparr>\<rparr>;
          s3 = s2\<lparr>objs := upd_class source (\<lambda>ob. ob\<lparr>class_edges := class_edges ob @ [e]\<rparr>) (objs s2)\<rparr>;
          s4 = s3\<lparr>objs := upd_class target (\<lambda>ob. ob\<lparr>class_edges := class_edges ob @ [e]\<rparr>) (objs s3)\<rparr>
      in if repeated [''type'', ''id'', ''source'', ''target''] kw \<noteq> []
         then (Inl (TypeError ''arguments''), s4)
         else (Inr e, broadcast_a ''chart.edge.add''
               (EdgeArgs (etype (edge_at (objs s4) e)) (edge_id (edge_at (objs s4) e))
                  (class_id (class_at (objs s4) source)) (class_id (class_at (objs s4) target)) kw)
               s4))"

text \<open>
  The callers hand their keyword fields on: \<^verbatim>\<open>self.add_edge_a(e, **kwargs)\<close> fills \<^verbatim>\<open>e\<close>
  positionally, so a keyword field named \<^verbatim>\<open>e\<close> raises TypeError at the call, after the
  edge object was built and before \<^verbatim>\<open>add_edge_a\<close> runs. An exception of \<^verbatim>\<open>add_edge_a\<close>
  passes through the caller; otherwise the caller returns the edge it built. (The names
  \<^verbatim>\<open>source\<close>, \<^verbatim>\<open>target\<close>, \<^verbatim>\<open>page\<close> and \<^verbatim>\<open>auto\<close> are parameters of the callers
  themselves and never reach \<^verbatim>\<open>**kwargs\<close>.)
\<close>

definition call_add_edge_a ::
  "ref \<Rightarrow> kwargs \<Rightarrow> spectral_sequence_chart \<Rightarrow> (error + ref) \<times> spectral_sequence_chart" where
  "call_add_edge_a e kw s =
     (if repeated [''e''] kw \<noteq> [] then (Inl (TypeError ''add_edge_a''), s)
      else add_edge_a e kw s)"

definition add_structline_a ::
  "ref \<Rightarrow> ref \<Rightarrow> kwargs \<Rightarrow> spectral_sequence_chart \<Rightarrow> (error + ref) \<times> spectral_sequence_chart" where
  "add_structline_a source target kw s =
     (let (e, st1) = ChartEdge_new ChartStructline None source target kw (objs s)
      in case call_add_edge_a e kw (s\<lparr>objs := st1\<rparr>) of
           (Inl err, s1) \<Rightarrow> (Inl err, s1)
         | (Inr _, s1) \<Rightarrow> (Inr e, s1))"

text \<open>
  Modelled from the spec: \<^verbatim>\<open>ChartClass.add_page\<close> is not among the sources; it records
  that the class participates on the page.
\<close>

definition add_page :: "ref \<Rightarrow> int \<Rightarrow> spectral_sequence_chart \<Rightarrow> spectral_sequence_chart" where
  "add_page c page s =
     s\<lparr>objs := upd_class c (\<lambda>ob. ob\<lparr>class_pages := class_pages ob @ [page]\<rparr>) (objs s)\<rparr>"

definition add_differential_a ::
  "int \<Rightarrow> ref \<Rightarrow> ref \<Rightarrow> bool \<Rightarrow> kwargs \<Rightarrow> spectral_sequence_chart
   \<Rightarrow> (error + ref) \<times> spectral_sequence_chart" where
  "add_differential_a page source target auto kw s =
     (let s1 = (if auto
                then update_a (add_page_range_a (page, page) (add_page target page (add_page source page s)))
                else s);
          (e, st1) = ChartEdge_new ChartDifferential (Some page) source target kw (objs s1)
      in case call_add_edge_a e ((''page'', PyInt page) # kw) (s1\<lparr>objs := st1\<rparr>) of
           (Inl err, s2) \<Rightarrow> (Inl err, s2)
         | (Inr _, s2) \<Rightarrow> (Inr e, s2))"

text \<open>
  Modelled from the spec: \<^verbatim>\<open>add_extension\<close> is not among the sources. It constructs the
  extension edge, appends it to the shared edge list with a fresh sequential id, appends it
  to both endpoints' incident-edge lists and broadcasts \<^verbatim>\<open>chart.edge.add\<close>: the path of
  \<^verbatim>\<open>add_structline_a\<close> with the other type tag.
\<close>

definition add_extension_a ::
  "ref \<Rightarrow> ref \<Rightarrow> kwargs \<Rightarrow> spectral_sequence_chart \<Rightarrow> (error + ref) \<times> spectral_sequence_chart" where
  "add_extension_a source target kw s =
     (let (e, st1) = ChartEdge_new ChartExtension None source target kw (objs s)
      in case call_add_edge_a e kw (s\<lparr>objs := st1\<rparr>) of
           (Inl err, s1) \<Rightarrow> (Inl err, s1)
         | (Inr _, s1) \<Rightarrow> (Inr e, s1))"

section \<open>The interaction modes (chart/server/spectralsequence\_chart/interactive\_chart.py)\<close>

datatype mode =
    NoMode | AddClassMode | AddEdgeMode | NameClassMode | ColorMode
  | AddExtensionMode | AddDifferentialMode | NudgeClassMode

text \<open>
  \<^verbatim>\<open>InteractiveChartAgent.modes\<close>, as the decorator \<^verbatim>\<open>register_mode\<close> fills it: one entry
  per decorated class, under the name of the class. The base class \<^verbatim>\<open>Mode\<close> is not
  registered.
\<close>

definition modes :: "(string \<times> mode) list" where
  "modes =
     [(''NoMode'', NoMode), (''AddClassMode'', AddClassMode), (''AddEdgeMode'', AddEdgeMode),
      (''NameClassMode'', NameClassMode), (''ColorMode'', ColorMode),
      (''AddExtensionMode'', AddExtensionMode), (''AddDifferentialMode'', AddDifferentialMode),
      (''NudgeClassMode'', NudgeClassMode)]"

text \<open>
  Modelled from the spec: Envelope and Command are not among the sources. An Envelope
  carries the Command, a sequence of segments whose string form joins them with dots, and
  a consumed flag that \<^verbatim>\<open>mark_used\<close> sets.
\<close>

record envelope =
  part_list :: "string list"
  used :: bool

definition mark_used :: "envelope \<Rightarrow> envelope" where
  "mark_used env = env\<lparr>used := True\<rparr>"

text \<open>\<^verbatim>\<open>sep.join(parts)\<close>.\<close>

fun join :: "string \<Rightarrow> string list \<Rightarrow> string" where
  "join sep [] = []"
| "join sep [p] = p"
| "join sep (p # q # ps) = p @ sep @ join sep (q # ps)"

definition cmd_str :: "envelope \<Rightarrow> string" where
  "cmd_str env = join ''.'' (part_list env)"

text \<open>
  A coroutine handed to \<^verbatim>\<open>schedule_coroutine\<close>: the handler of a mode, found under its
  attribute name, with the payload it was called with.
\<close>

datatype task = HandlerTask mode string "pyval list" kwargs

record interactive_chart_agent =
  sseq :: spectral_sequence_chart
  mode :: mode
  interact_source :: "ref option"
  differential_source :: "ref option"
  extension_source :: "ref option"
  extension_prev_color_default :: pyval
  extension :: "ref option"
  x_range :: "int \<times> int"
  y_max :: "int \<times> int"
  scheduled :: "task list"
  console :: "string list"

text \<open>
  \<^verbatim>\<open>InteractiveChartAgent.__init__\<close>, on the chart its base class holds. The attribute
  \<^verbatim>\<open>_extension\<close> does not exist before the first extension: \<open>None\<close>.
\<close>

definition InteractiveChartAgent_init :: "spectral_sequence_chart \<Rightarrow> interactive_chart_agent" where
  "InteractiveChartAgent_init ch =
     \<lparr>sseq = ch, mode = NoMode, interact_source = None, differential_source = None,
      extension_source = None, extension_prev_color_default = PyStr ''black'',
      extension = None, x_range = (0, 50), y_max = (0, 12),
      scheduled = [], console = []\<rparr>"

definition print :: "string \<Rightarrow> interactive_chart_agent \<Rightarrow> interactive_chart_agent" where
  "print line a = a\<lparr>console := console a @ [line]\<rparr>"

text \<open>
  Modelled from the spec: the agent's \<^verbatim>\<open>send_message_outward_a\<close> and \<^verbatim>\<open>update_a\<close> come
  from the base class ChartAgent, and \<^verbatim>\<open>sseq.add_differential\<close> and
  \<^verbatim>\<open>sseq.add_extension\<close> from its chart object; none is among the sources. They are the
  operations of the chart state engine the spec names (the outbound Envelope, flush\_updates,
  add\_differential with \<^verbatim>\<open>auto\<close> at its default, add\_extension), here the ones embedded
  from chart.py above, on the chart the agent owns. The handlers call them with no keyword
  field, so they return the edge, which is built at the next free address; the \<open>Inl\<close>
  branch below is never taken.
\<close>

definition send_message_outward_a ::
  "string \<Rightarrow> payload \<Rightarrow> interactive_chart_agent \<Rightarrow> interactive_chart_agent" where
  "send_message_outward_a cmd args a = a\<lparr>sseq := broadcast_a cmd args (sseq a)\<rparr>"

definition agent_update_a :: "interactive_chart_agent \<Rightarrow> interactive_chart_agent" where
  "agent_update_a a = a\<lparr>sseq := update_a (sseq a)\<rparr>"

definition sseq_add_differential ::
  "int \<Rightarrow> ref \<Rightarrow> ref \<Rightarrow> interactive_chart_agent \<Rightarrow> ref \<times> interactive_chart_agent" where
  "sseq_add_differential page s t a =
     (let (r, ch) = add_differential_a page s t True [] (sseq a)
      in (case r of Inr d \<Rightarrow> d | Inl err \<Rightarrow> next_ref (objs (sseq a)), a\<lparr>sseq := ch\<rparr>))"

definition sseq_add_extension ::
  "ref \<Rightarrow> ref \<Rightarrow> interactive_chart_agent \<Rightarrow> ref \<times> interactive_chart_agent" where
  "sseq_add_extension s t a =
     (let (r, ch) = add_extension_a s t [] (sseq a)
      in (case r of Inr e \<Rightarrow> e | Inl err \<Rightarrow> next_ref (objs (sseq a)), a\<lparr>sseq := ch\<rparr>))"

text \<open>\<^verbatim>\<open>obj.attr = v\<close> on an attribute kept in \<open>attrs\<close>.\<close>

fun setattr :: "string \<Rightarrow> pyval \<Rightarrow> kwargs \<Rightarrow> kwargs" where
  "setattr k v [] = [(k, v)]"
| "setattr k v ((k', v') # kvs) = (if k' = k then (k, v) # kvs else (k', v') # setattr k v kvs)"

definition set_edge_attr ::
  "ref \<Rightarrow> string \<Rightarrow> pyval \<Rightarrow> interactive_chart_agent \<Rightarrow> interactive_chart_agent" where
  "set_edge_attr e k v a =
     a\<lparr>sseq := (sseq a)\<lparr>objs := upd_edge e (\<lambda>ob. ob\<lparr>edge_attrs := setattr k v (edge_attrs ob)\<rparr>)
                                   (objs (sseq a))\<rparr>\<rparr>"

text \<open>
  \<^verbatim>\<open>prompt_a\<close> sends \<^verbatim>\<open>interact.prompt\<close> and waits for the observer; the answer that
  \<^verbatim>\<open>handle__interact__result__a\<close> stores is an argument of the model.
\<close>

definition prompt_a ::
  "string \<Rightarrow> pyval \<Rightarrow> pyval \<Rightarrow> interactive_chart_agent \<Rightarrow> pyval \<times> interactive_chart_agent" where
  "prompt_a msg dflt result a =
     (result, send_message_outward_a ''interact.prompt'' (PromptArgs msg dflt) a)"

subsection \<open>Setting the mode and dispatching a mode command\<close>

text \<open>
  \<^verbatim>\<open>kwargs["mode"]\<close> raises KeyError when the payload has no mode; a mode name is a
  string.
\<close>

definition handle__interact__mode__set__a ::
  "envelope \<Rightarrow> (string \<times> string) list \<Rightarrow> interactive_chart_agent
   \<Rightarrow> envelope \<times> (error + interactive_chart_agent)" where
  "handle__interact__mode__set__a env kw a =
     (let env1 = mark_used env in
      case map_of kw ''mode'' of
        None \<Rightarrow> (env1, Inl (KeyError ''mode''))
      | Some new_mode \<Rightarrow>
          (case map_of modes new_mode of
             Some m \<Rightarrow> (env1, Inr (a\<lparr>mode := m\<rparr>))
           | None \<Rightarrow>
               (env1, Inl (RuntimeError
                    (''Unknown mode '' @ [CHR 0x22] @ new_mode @ [CHR 0x22] @ ''.'')))))"

text \<open>
  \<^verbatim>\<open>getattr(self.mode, name, None)\<close> for a name that starts with \<^verbatim>\<open>handle__\<close>: the
  attributes of that form which a mode class defines or inherits from \<^verbatim>\<open>Mode\<close>
  (\<^verbatim>\<open>handle_click_a\<close> has a single underscore there, and no other attribute of a class
  starts so).
\<close>

fun mode_handlers :: "mode \<Rightarrow> string list" where
  "mode_handlers AddExtensionMode = [''handle__extension__adjust_bend__a'', ''handle__cancel__a'']"
| "mode_handlers NudgeClassMode = [''handle__cancel__a'', ''handle__nudge_class__a'']"
| "mode_handlers m = [''handle__cancel__a'']"

definition getattr_mode :: "mode \<Rightarrow> string \<Rightarrow> string option" where
  "getattr_mode m nm = (if nm \<in> set (mode_handlers m) then Some nm else None)"

text \<open>
  The parameters, after \<^verbatim>\<open>self\<close>, of the handlers a mode can have:
  \<^verbatim>\<open>handle__cancel__a(self)\<close>, \<^verbatim>\<open>handle__extension__adjust_bend__a(self, delta)\<close> and
  \<^verbatim>\<open>handle__nudge_class__a(self, x, y)\<close>.
\<close>

definition handler_params :: "string \<Rightarrow> string list" where
  "handler_params f =
     (if f = ''handle__extension__adjust_bend__a'' then [''delta'']
      else if f = ''handle__nudge_class__a'' then [''x'', ''y'']
      else [])"

text \<open>
  Python binds the payload to these parameters when \<^verbatim>\<open>f(self, *args, **kwargs)\<close> is
  called, before \<^verbatim>\<open>schedule_coroutine\<close> sees the coroutine. The positional values fill the
  first parameters and the keywords must name exactly the remaining ones: no handler has a
  default or a catch-all parameter, and \<^verbatim>\<open>self\<close> is already given. Any other payload
  raises TypeError, and nothing is scheduled.
\<close>

definition binds :: "string list \<Rightarrow> pyval list \<Rightarrow> kwargs \<Rightarrow> bool" where
  "binds params args kw =
     (length args \<le> length params \<and> set (map fst kw) = set (drop (length args) params))"

definition handle__interact__mode__a ::
  "envelope \<Rightarrow> pyval list \<Rightarrow> kwargs \<Rightarrow> interactive_chart_agent
   \<Rightarrow> envelope \<times> (error + interactive_chart_agent)" where
  "handle__interact__mode__a env args kw a =
     (let env1 = mark_used env in
      case getattr_mode (mode a) (''handle__'' @ join ''__'' (drop 2 (part_list env1)) @ ''__a'') of
        None \<Rightarrow> (env1, Inl (RuntimeError (''Invalid mode command '' @ cmd_str env1 @ ''.'')))
      | Some f \<Rightarrow>
          if binds (handler_params f) args kw
          then (env1, Inr (a\<lparr>scheduled := scheduled a @ [HandlerTask (mode a) f args kw]\<rparr>))
          else (env1, Inl (TypeError f)))"

subsection \<open>The click handlers of AddExtension and AddDifferential\<close>

text \<open>
  The click coordinates \<open>px\<close>, \<open>py\<close> are not read by these two handlers; \<open>c\<close> is the class
  the click resolved to, if any. In \<^verbatim>\<open>AddExtensionMode\<close> the colour prompt's answer is the
  argument \<open>answer\<close>.
\<close>

definition AddExtensionMode_handle_click_a ::
  "'a \<Rightarrow> 'a \<Rightarrow> ref option \<Rightarrow> pyval \<Rightarrow> interactive_chart_agent \<Rightarrow> interactive_chart_agent" where
  "AddExtensionMode_handle_click_a px py c answer a =
     (case c of
        None \<Rightarrow> a
      | Some c \<Rightarrow>
          (case extension_source a of
             None \<Rightarrow>
               send_message_outward_a ''interact.mode.set_info'' (InfoArgs (CurrentSource c))
                 ((print ''set_source'' a)\<lparr>extension_source := Some c\<rparr>)
           | Some s \<Rightarrow>
               let t = c;
                   cs = class_at (objs (sseq a)) s;
                   ct = class_at (objs (sseq a)) t
               in if class_x ct - class_x cs \<notin> set [0, 1, 3] then print ''invalid'' a
                  else if class_y ct - class_y cs < 2 then print ''invalid'' a
                  else
                    let a1 = print ''success'' a;
                        (color, a2) = prompt_a ''Color?'' (extension_prev_color_default a1) answer a1;
                        a3 = a2\<lparr>extension_prev_color_default := color\<rparr>;
                        (e, a4) = sseq_add_extension s t a3;
                        a5 = set_edge_attr e ''color'' color a4;
                        a6 = a5\<lparr>extension := Some e\<rparr>;
                        a7 = a6\<lparr>extension_source := None\<rparr>;
                        a8 = agent_update_a a7
                    in send_message_outward_a ''interact.mode.extension.adjust_bend'' NoArgs a8))"

definition AddDifferentialMode_handle_click_a ::
  "'a \<Rightarrow> 'a \<Rightarrow> ref option \<Rightarrow> interactive_chart_agent \<Rightarrow> interactive_chart_agent" where
  "AddDifferentialMode_handle_click_a px py c a =
     (case c of
        None \<Rightarrow> a
      | Some c \<Rightarrow>
          (case differential_source a of
             None \<Rightarrow>
               send_message_outward_a ''interact.mode.set_info'' (InfoArgs (CurrentSource c))
                 ((print ''set_source'' a)\<lparr>differential_source := Some c\<rparr>)
           | Some s \<Rightarrow>
               let t = c;
                   cs = class_at (objs (sseq a)) s;
                   ct = class_at (objs (sseq a)) t
               in if class_x cs \<noteq> class_x ct + 1 then print ''invalid'' a
                  else
                    let a1 = print ''success'' a;
                        page = class_y ct - class_y cs;
                        (d, a2) = sseq_add_differential page s t a1;
                        a3 = set_edge_attr d ''color'' (PyStr ''blue'') a2;
                        a4 = a3\<lparr>differential_source := None\<rparr>;
                        a5 = send_message_outward_a ''interact.mode.set_info'' (InfoArgs (InfoText '''')) a4
                    in agent_update_a a5))"

section \<open>Sequences of calls, and what the properties speak of\<close>

text \<open>\<^verbatim>\<open>add_element_to_update\<close> called on the chart's data, once for each element in turn.\<close>

definition queue_update :: "ref \<Rightarrow> spectral_sequence_chart \<Rightarrow> spectral_sequence_chart" where
  "queue_update e s = s\<lparr>data := add_element_to_update e (data s)\<rparr>"

fun queue_updates :: "ref list \<Rightarrow> spectral_sequence_chart \<Rightarrow> spectral_sequence_chart" where
  "queue_updates [] s = s"
| "queue_updates (e # es) s = queue_updates es (queue_update e s)"

text \<open>The messages a step from \<open>s\<close> to \<open>s'\<close> added to the log.\<close>

definition emitted :: "spectral_sequence_chart \<Rightarrow> spectral_sequence_chart \<Rightarrow> message list" where
  "emitted s s' = drop (length (sent s)) (sent s')"


text \<open>The mutating calls of the engine, and a run of them in order.\<close>

datatype chart_op =
    AddNode ref
  | AddClass int int kwargs
  | AddStructline ref ref kwargs
  | AddExtension ref ref kwargs
  | AddDifferential int ref ref bool kwargs

fun apply_op ::
  "(ref \<Rightarrow> string \<Rightarrow> pyval \<Rightarrow> spectral_sequence_chart \<Rightarrow> spectral_sequence_chart) \<Rightarrow>
   chart_op \<Rightarrow> spectral_sequence_chart \<Rightarrow> spectral_sequence_chart" where
  "apply_op sf (AddNode n) s = add_node_a n s"
| "apply_op sf (AddClass cx cy kw) s = snd (add_class_a sf cx cy kw s)"
| "apply_op sf (AddStructline src tgt kw) s = snd (add_structline_a src tgt kw s)"
| "apply_op sf (AddExtension src tgt kw) s = snd (add_extension_a src tgt kw s)"
| "apply_op sf (AddDifferential page src tgt auto kw) s = snd (add_differential_a page src tgt auto kw s)"

fun run ::
  "(ref \<Rightarrow> string \<Rightarrow> pyval \<Rightarrow> spectral_sequence_chart \<Rightarrow> spectral_sequence_chart) \<Rightarrow>
   chart_op list \<Rightarrow> spectral_sequence_chart \<Rightarrow> spectral_sequence_chart" where
  "run sf [] s = s"
| "run sf (c # cs) s = run sf cs (apply_op sf c s)"

text \<open>
  A call is plain when \<^verbatim>\<open>add_node\<close> is given a node object that is not yet in the node
  list, and \<^verbatim>\<open>add_class\<close> no \<^verbatim>\<open>color\<close> keyword (whose \<^verbatim>\<open>set_field_a\<close> is not among the
  sources); a run is plain when each of its calls is, in the state it is made in.
\<close>

fun plain_op :: "chart_op \<Rightarrow> spectral_sequence_chart \<Rightarrow> bool" where
  "plain_op (AddNode n) s = (n \<notin> set (nodes (data s)))"
| "plain_op (AddClass cx cy kw) s = (map_of kw ''color'' = None)"
| "plain_op c s = True"

fun plain_run ::
  "(ref \<Rightarrow> string \<Rightarrow> pyval \<Rightarrow> spectral_sequence_chart \<Rightarrow> spectral_sequence_chart) \<Rightarrow>
   chart_op list \<Rightarrow> spectral_sequence_chart \<Rightarrow> bool" where
  "plain_run sf [] s = True"
| "plain_run sf (c # cs) s = (plain_op c s \<and> plain_run sf cs (apply_op sf c s))"

text \<open>
  Index identity: the node, class and edge at position \<open>i\<close> of its list carries \<open>i\<close> as
  its idx or id, and every class of the class list stands in the per-bidegree mapping
  under its own \<open>(x, y)\<close>.
\<close>

definition in_own_bidegree :: "spectral_sequence_chart \<Rightarrow> ref \<Rightarrow> bool" where
  "in_own_bidegree s c =
     (case classes_by_bidegree (data s) (class_x (class_at (objs s) c), class_y (class_at (objs s) c)) of
        None \<Rightarrow> False
      | Some cs \<Rightarrow> c \<in> set cs)"

definition index_identity :: "spectral_sequence_chart \<Rightarrow> bool" where
  "index_identity s =
     (map (\<lambda>r. idx (node_at (objs s) r)) (nodes (data s))
        = map Some [0 ..< length (nodes (data s))]
    \<and> map (\<lambda>r. class_id (class_at (objs s) r)) (classes (data s))
        = map Some [0 ..< length (classes (data s))]
    \<and> map (\<lambda>r. edge_id (edge_at (objs s) r)) (edges (data s))
        = map Some [0 ..< length (edges (data s))]
    \<and> list_all (in_own_bidegree s) (classes (data s)))"

text \<open>The classes and edges of the chart were built by constructors: their addresses are taken.\<close>

definition allocated :: "spectral_sequence_chart \<Rightarrow> bool" where
  "allocated s =
     (list_all (\<lambda>r. r < next_ref (objs s)) (classes (data s))
    \<and> list_all (\<lambda>r. r < next_ref (objs s)) (edges (data s)))"

text \<open>
  The state a call leaves, written out in one step: a class built at the next free address
  with the id \<open>i\<close>, and an edge built there and linked to its two endpoints.
\<close>

definition new_class :: "int \<Rightarrow> int \<Rightarrow> kwargs \<Rightarrow> nat \<Rightarrow> chart_class" where
  "new_class cx cy kw i =
     \<lparr>class_x = cx, class_y = cy, class_id = Some i, node_list = [0],
      class_pages = [], class_edges = [], class_attrs = filter (\<lambda>(k, v). k \<noteq> ''node_list'') kw\<rparr>"

definition new_edge :: "edge_type \<Rightarrow> int option \<Rightarrow> ref \<Rightarrow> ref \<Rightarrow> kwargs \<Rightarrow> nat \<Rightarrow> chart_edge" where
  "new_edge ty pg src tgt kw i =
     \<lparr>etype = ty, edge_id = Some i, edge_source = src, edge_target = tgt,
      edge_page = pg, edge_attrs = kw\<rparr>"

definition link_edge :: "ref \<Rightarrow> ref \<Rightarrow> (ref \<Rightarrow> chart_class) \<Rightarrow> (ref \<Rightarrow> chart_class)" where
  "link_edge e c ca = ca(c := (ca c)\<lparr>class_edges := class_edges (ca c) @ [e]\<rparr>)"

definition with_class :: "int \<Rightarrow> int \<Rightarrow> kwargs \<Rightarrow> spectral_sequence_chart \<Rightarrow> spectral_sequence_chart" where
  "with_class cx cy kw s =
     s\<lparr>objs := (objs s)\<lparr>class_at := (class_at (objs s))
                (next_ref (objs s) := new_class cx cy kw (length (classes (data s)))),
              next_ref := Suc (next_ref (objs s))\<rparr>,
       data := (data s)\<lparr>classes := classes (data s) @ [next_ref (objs s)],
              classes_by_bidegree := (classes_by_bidegree (data s))
                ((cx, cy) \<mapsto> (case classes_by_bidegree (data s) (cx, cy) of
                               None \<Rightarrow> [] | Some cs \<Rightarrow> cs) @ [next_ref (objs s)])\<rparr>,
       sent := sent s @ [(''chart.class.add'', ClassArgs (next_ref (objs s)))]\<rparr>"

definition with_edge ::
  "edge_type \<Rightarrow> int option \<Rightarrow> ref \<Rightarrow> ref \<Rightarrow> kwargs \<Rightarrow> kwargs \<Rightarrow>
   spectral_sequence_chart \<Rightarrow> spectral_sequence_chart" where
  "with_edge ty pg src tgt kw kw' s =
     s\<lparr>objs := (objs s)\<lparr>edge_at := (edge_at (objs s))
                (next_ref (objs s) := new_edge ty pg src tgt kw (length (edges (data s)))),
              class_at := link_edge (next_ref (objs s)) tgt
                            (link_edge (next_ref (objs s)) src (class_at (objs s))),
              next_ref := Suc (next_ref (objs s))\<rparr>,
       data := (data s)\<lparr>edges := edges (data s) @ [next_ref (objs s)]\<rparr>,
       sent := sent s @ [(''chart.edge.add'',
                EdgeArgs ty (Some (length (edges (data s))))
                  (class_id (class_at (objs s) src)) (class_id (class_at (objs s) tgt)) kw')]\<rparr>"

text \<open>
  The keyword fields of an edge call are in order when none is named \<^verbatim>\<open>e\<close> (refused at
  the call of \<^verbatim>\<open>add_edge_a\<close>) or \<^verbatim>\<open>type\<close>, \<^verbatim>\<open>id\<close>, \<^verbatim>\<open>source\<close>, \<^verbatim>\<open>target\<close>
  (refused when the payload is built).
\<close>

definition edge_fields_ok :: "kwargs \<Rightarrow> bool" where
  "edge_fields_ok kw =
     (repeated [''e''] kw = [] \<and> repeated [''type'', ''id'', ''source'', ''target''] kw = [])"

text \<open>The state with the edge object built and nothing else done.\<close>

definition with_built_edge ::
  "edge_type \<Rightarrow> int option \<Rightarrow> ref \<Rightarrow> ref \<Rightarrow> kwargs \<Rightarrow> spectral_sequence_chart \<Rightarrow> spectral_sequence_chart" where
  "with_built_edge ty pg src tgt kw s =
     s\<lparr>objs := (objs s)\<lparr>edge_at := (edge_at (objs s))
                (next_ref (objs s) :=
                   \<lparr>etype = ty, edge_id = None, edge_source = src, edge_target = tgt,
                    edge_page = pg, edge_attrs = kw\<rparr>),
              next_ref := Suc (next_ref (objs s))\<rparr>\<rparr>"

text \<open>
  What an edge call returns and leaves: the TypeError of the call of \<^verbatim>\<open>add_edge_a\<close> with
  the edge only built, the TypeError of the payload with the edge linked and nothing sent,
  or the edge with the broadcast made.
\<close>

definition after_edge_call ::
  "edge_type \<Rightarrow> int option \<Rightarrow> ref \<Rightarrow> ref \<Rightarrow> kwargs \<Rightarrow> kwargs \<Rightarrow>
   spectral_sequence_chart \<Rightarrow> (error + ref) \<times> spectral_sequence_chart" where
  "after_edge_call ty pg src tgt kw kw' s =
     (if repeated [''e''] kw' \<noteq> []
      then (Inl (TypeError ''add_edge_a''), with_built_edge ty pg src tgt kw s)
      else if repeated [''type'', ''id'', ''source'', ''target''] kw' \<noteq> []
      then (Inl (TypeError ''arguments''), (with_edge ty pg src tgt kw kw' s)\<lparr>sent := sent s\<rparr>)
      else (Inr (next_ref (objs s)), with_edge ty pg src tgt kw kw' s))"

text \<open>What \<^verbatim>\<open>add_differential_a\<close> does first when \<^verbatim>\<open>auto\<close> is set.\<close>

definition differential_prelude ::
  "int \<Rightarrow> ref \<Rightarrow> ref \<Rightarrow> spectral_sequence_chart \<Rightarrow> spectral_sequence_chart" where
  "differential_prelude page src tgt s =
     update_a (add_page_range_a (page, page) (add_page tgt page (add_page src page s)))"

section \<open>Charts to evaluate the operations on\<close>

text \<open>A store in which no object has been constructed yet.\<close>

definition blank_store :: store where
  "blank_store =
     \<lparr>node_at = (\<lambda>_. \<lparr>shape = [], idx = None\<rparr>),
      class_at = (\<lambda>_. \<lparr>class_x = 0, class_y = 0, class_id = None, node_list = [],
                         class_pages = [], class_edges = [], class_attrs = []\<rparr>),
      edge_at = (\<lambda>_. \<lparr>etype = ChartStructline, edge_id = None, edge_source = 0,
                        edge_target = 0, edge_page = None, edge_attrs = []\<rparr>),
      next_ref = 0\<rparr>"

definition fresh_chart :: spectral_sequence_chart where
  "fresh_chart = SpectralSequenceChart_init (\<lambda>r n. int r) ''chart'' blank_store"

text \<open>A \<^verbatim>\<open>set_field_a\<close> for calls that give no \<^verbatim>\<open>color\<close> keyword and so never reach it.\<close>

definition no_set_field ::
  "ref \<Rightarrow> string \<Rightarrow> pyval \<Rightarrow> spectral_sequence_chart \<Rightarrow> spectral_sequence_chart" where
  "no_set_field c k v s = s"

text \<open>
  The fresh chart after \<^verbatim>\<open>add_class(1, 0)\<close> and \<^verbatim>\<open>add_class(0, 3)\<close>: the default node has
  address 0, the two classes have addresses 1 and 2.
\<close>

definition two_class_chart :: spectral_sequence_chart where
  "two_class_chart = run no_set_field [AddClass 1 0 [], AddClass 0 3 []] fresh_chart"

text \<open>An agent on that chart, as its constructor leaves it.\<close>

definition idle_agent :: interactive_chart_agent where
  "idle_agent = InteractiveChartAgent_init two_class_chart"

text \<open>
  That agent in \<^verbatim>\<open>AddDifferentialMode\<close> after a first click on the class at address 1,
  which stands at (1, 0).
\<close>

definition pending_differential :: interactive_chart_agent where
  "pending_differential =
     AddDifferentialMode_handle_click_a (0 :: int) 0 (Some 1) (idle_agent\<lparr>mode := AddDifferentialMode\<rparr>)"

text \<open>
  The fresh chart after \<^verbatim>\<open>add_class(0, 0)\<close>, \<^verbatim>\<open>add_class(3, 5)\<close> and \<^verbatim>\<open>add_class(2, 2)\<close>,
  at the addresses 1, 2 and 3, and an agent on it in \<^verbatim>\<open>AddExtensionMode\<close> after a first
  click on the class at (0, 0).
\<close>

definition three_class_chart :: spectral_sequence_chart where
  "three_class_chart =
     run no_set_field [AddClass 0 0 [], AddClass 3 5 [], AddClass 2 2 []] fresh_chart"

definition pending_extension :: interactive_chart_agent where
  "pending_extension =
     AddExtensionMode_handle_click_a (0 :: int) 0 (Some 1) PyNone
       ((InteractiveChartAgent_init three_class_chart)\<lparr>mode := AddExtensionMode\<rparr>)"

section \<open>Properties\<close>

lemmas init_defs =
  SpectralSequenceChart_init_def ChartData_init_def ChartNode_new_def upd_node_def INFINITY_def

subsection \<open>The fresh chart\<close>

text \<open>
  C10. A freshly constructed chart is not blank. Its page list holds exactly the two
  entries [2, 65535] and [65535, 65535], INFINITY being 65535; its node list holds exactly
  one node, a circle with idx 0, which the node cache already maps from its hash; the
  class list, the per-bidegree mapping, the edge list and the dirty set are empty (and
  nothing has been sent). So the first add\_class receives id 0, the first add\_node
  receives idx 1, and add\_page\_range([2, 65535]) changes nothing.
\<close>

theorem fresh_chart_not_blank:
  fixes hash :: "ref \<Rightarrow> chart_node \<Rightarrow> int"
  shows "(let s0 = SpectralSequenceChart_init hash nm st; d = next_ref st in
     INFINITY = 65535
   \<and> page_list (data s0) = [(2, 65535), (65535, 65535)]
   \<and> nodes (data s0) = [d]
   \<and> node_at (objs s0) d = \<lparr>shape = ''circle'', idx = Some 0\<rparr>
   \<and> nodes_dict (data s0) = [hash d (node_at (objs s0) d) \<mapsto> d]
   \<and> classes (data s0) = []
   \<and> classes_by_bidegree (data s0) = Map.empty
   \<and> edges (data s0) = []
   \<and> updated_elements (data s0) = {}
   \<and> sent s0 = []
   \<and> class_id (class_at (objs (snd (add_class_a sf cx cy [] s0)))
                 (fst (add_class_a sf cx cy [] s0))) = Some 0
   \<and> idx (node_at (objs (add_node_a n s0)) n) = Some 1
   \<and> add_page_range_a (2, 65535) s0 = s0)"
  by (simp add: init_defs add_class_a_def ChartClass_new_def upd_class_def broadcast_a_def
      add_node_a_def add_page_range_a_def Let_def split_def)

subsection \<open>The page list\<close>

lemma find_page_idx_takeWhile:
  "find_page_idx i pl r =
     (if length (takeWhile (\<lambda>p. fst p \<le> fst r) pl) < length pl
      then Some (i + length (takeWhile (\<lambda>p. fst p \<le> fst r) pl)) else None)"
  by (induction pl arbitrary: i) (simp_all add: not_less)

lemma insert_pos_eq:
  "(case find_page_idx 0 pl r of Some j \<Rightarrow> j | None \<Rightarrow> length pl)
     = length (takeWhile (\<lambda>p. fst p \<le> fst r) pl)"
  using length_takeWhile_le [of "\<lambda>p. fst p \<le> fst r" pl]
  by (simp add: find_page_idx_takeWhile)

lemma list_insert_takeWhile:
  "list_insert pl (length (takeWhile P pl)) r = takeWhile P pl @ r # dropWhile P pl"
  by (simp add: list_insert_def takeWhile_eq_take [symmetric] dropWhile_eq_drop [symmetric])

lemma add_page_range_a_new:
  "r \<notin> set (page_list (data s)) \<Longrightarrow>
   add_page_range_a r s =
     s\<lparr>data := (data s)\<lparr>page_list :=
            list_insert (page_list (data s)) (length (takeWhile (\<lambda>p. fst p \<le> fst r) (page_list (data s)))) r\<rparr>,
       sent := sent s @ [(''chart.insert_page_range'',
            PageRangeArgs r (length (takeWhile (\<lambda>p. fst p \<le> fst r) (page_list (data s)))))]\<rparr>"
  by (simp add: add_page_range_a_def insert_pos_eq broadcast_a_def Let_def)

lemma add_page_range_a_old:
  "r \<in> set (page_list (data s)) \<Longrightarrow> add_page_range_a r s = s"
  by (simp add: add_page_range_a_def)

lemma set_list_insert: "set (list_insert xs i v) = insert v (set xs)"
proof -
  have "set (take i xs) \<union> set (drop i xs) = set (take i xs @ drop i xs)"
    by (simp only: set_append)
  then have "set (take i xs) \<union> set (drop i xs) = set xs"
    by (simp only: append_take_drop_id)
  then show ?thesis
    by (auto simp: list_insert_def)
qed

lemma add_page_range_a_mem: "r \<in> set (page_list (data (add_page_range_a r s)))"
  by (cases "r \<in> set (page_list (data s))")
     (simp_all add: add_page_range_a_old add_page_range_a_new set_list_insert)

lemma sorted_insert_takeWhile:
  fixes pl :: "page_range list"
  assumes "sorted (map fst pl)"
  shows "sorted (map fst (takeWhile (\<lambda>p. fst p \<le> fst r) pl @ r # dropWhile (\<lambda>p. fst p \<le> fst r) pl))"
proof -
  let ?P = "\<lambda>p::page_range. fst p \<le> fst r"
  let ?tw = "takeWhile ?P pl" and ?dw = "dropWhile ?P pl"
  have "map fst pl = map fst ?tw @ map fst ?dw"
    by (simp only: map_append [symmetric] takeWhile_dropWhile_id)
  with assms have "sorted (map fst ?tw @ map fst ?dw)"
    by simp
  then have s: "sorted (map fst ?tw)" "sorted (map fst ?dw)"
    unfolding sorted_append by blast+
  have le: "\<forall>p \<in> set ?tw. fst p \<le> fst r"
    by (auto dest: set_takeWhileD)
  have ge: "\<forall>p \<in> set ?dw. fst r \<le> fst p"
  proof (cases ?dw)
    case Nil
    then show ?thesis by (simp only: list.set ball_empty)
  next
    case (Cons q qs)
    then have "\<not> ?P (hd ?dw)"
      using hd_dropWhile [of ?P pl] by simp
    with Cons have "fst r < fst q" by simp
    moreover from s(2) Cons have "\<forall>p \<in> set qs. fst q \<le> fst p"
      by auto
    ultimately show ?thesis
      unfolding Cons by auto
  qed
  have "sorted (map fst ?tw @ fst r # map fst ?dw)"
    unfolding sorted_append using s le ge by (fastforce intro: order_trans)
  then show ?thesis by simp
qed

lemma distinct_insert_takeWhile:
  assumes "distinct pl" and "r \<notin> set pl"
  shows "distinct (takeWhile P pl @ r # dropWhile P pl)"
proof -
  have "distinct (takeWhile P pl) \<and> distinct (dropWhile P pl)
        \<and> set (takeWhile P pl) \<inter> set (dropWhile P pl) = {}"
    using assms(1) distinct_append [of "takeWhile P pl" "dropWhile P pl"]
    unfolding takeWhile_dropWhile_id by blast
  moreover have "r \<notin> set (takeWhile P pl)" and "r \<notin> set (dropWhile P pl)"
    using assms(2) by (auto dest: set_takeWhileD set_dropWhileD)
  ultimately show ?thesis by simp
qed

lemma add_page_range_a_keeps_order:
  assumes "sorted (map fst (page_list (data s)))" and "distinct (page_list (data s))"
  shows "sorted (map fst (page_list (data (add_page_range_a r s)))) \<and>
         distinct (page_list (data (add_page_range_a r s)))"
proof (cases "r \<in> set (page_list (data s))")
  case True
  with assms show ?thesis by (simp add: add_page_range_a_old)
next
  case False
  let ?P = "\<lambda>p. fst p \<le> fst r"
  let ?pl = "page_list (data s)"
  have pl': "page_list (data (add_page_range_a r s)) = takeWhile ?P ?pl @ r # dropWhile ?P ?pl"
    using False by (simp add: add_page_range_a_new list_insert_takeWhile)
  show ?thesis
    unfolding pl'
    using sorted_insert_takeWhile [OF assms(1), of r] distinct_insert_takeWhile [OF assms(2) False, of ?P]
    by blast
qed

lemma foldl_add_page_range_a_keeps_order:
  "sorted (map fst (page_list (data s))) \<Longrightarrow> distinct (page_list (data s)) \<Longrightarrow>
   sorted (map fst (page_list (data (foldl (\<lambda>s r. add_page_range_a r s) s rs)))) \<and>
   distinct (page_list (data (foldl (\<lambda>s r. add_page_range_a r s) s rs)))"
  by (induction rs arbitrary: s) (simp_all add: add_page_range_a_keeps_order)


lemma init_page_list:
  "page_list (data (SpectralSequenceChart_init hash nm st)) = [(2, 65535), (65535, 65535)]"
  by (simp add: init_defs split_def Let_def)

text \<open>
  C1. \<^verbatim>\<open>add_page_range\<close> is idempotent. On a chart whose page list already holds \<open>r\<close> the
  call changes nothing and sends nothing, and a second call after any first call changes
  nothing; so when \<open>r\<close> is new, two insertions of \<open>r\<close> send exactly one
  \<^verbatim>\<open>chart.insert_page_range\<close> in total. A new range goes in before the first entry whose
  lower bound exceeds its own (every entry before that place has a lower bound at most its
  own), else at the end, and the broadcast carries that index. After any sequence of calls,
  from a fresh chart or from any list that is sorted with no duplicates, the page list is
  sorted ascending by lower bound and has no duplicate pair.
\<close>

theorem add_page_range_a_idempotent_sorted:
  fixes hash :: "ref \<Rightarrow> chart_node \<Rightarrow> int"
  shows
  "(let pl = page_list (data s);
        k = length (takeWhile (\<lambda>p. fst p \<le> fst r) pl);
        s1 = add_page_range_a r s
    in (r \<in> set pl \<longrightarrow> s1 = s)
     \<and> add_page_range_a r s1 = s1
     \<and> (r \<notin> set pl \<longrightarrow>
           page_list (data s1) = take k pl @ r # drop k pl
         \<and> (\<forall>p \<in> set (take k pl). fst p \<le> fst r)
         \<and> (k < length pl \<longrightarrow> fst r < fst (pl ! k))
         \<and> sent (add_page_range_a r s1) = sent s @ [(''chart.insert_page_range'', PageRangeArgs r k)])
     \<and> (sorted (map fst pl) \<and> distinct pl \<longrightarrow>
           sorted (map fst (page_list (data (foldl (\<lambda>s r. add_page_range_a r s) s rs))))
         \<and> distinct (page_list (data (foldl (\<lambda>s r. add_page_range_a r s) s rs))))
     \<and> sorted (map fst (page_list (data (foldl (\<lambda>s r. add_page_range_a r s)
                 (SpectralSequenceChart_init hash nm st) rs))))
     \<and> distinct (page_list (data (foldl (\<lambda>s r. add_page_range_a r s)
                 (SpectralSequenceChart_init hash nm st) rs))))"
proof -
  let ?pl = "page_list (data s)"
  let ?P = "\<lambda>p. fst p \<le> fst r"
  let ?k = "length (takeWhile ?P ?pl)"
  let ?s1 = "add_page_range_a r s"
  have old: "r \<in> set ?pl \<longrightarrow> ?s1 = s"
    by (simp add: add_page_range_a_old)
  have idem: "add_page_range_a r ?s1 = ?s1"
    by (rule add_page_range_a_old) (rule add_page_range_a_mem)
  have new: "page_list (data ?s1) = take ?k ?pl @ r # drop ?k ?pl"
            "sent (add_page_range_a r ?s1) = sent s @ [(''chart.insert_page_range'', PageRangeArgs r ?k)]"
    if "r \<notin> set ?pl"
  proof -
    show "page_list (data ?s1) = take ?k ?pl @ r # drop ?k ?pl"
      using that by (simp add: add_page_range_a_new list_insert_def)
    have "sent (add_page_range_a r ?s1) = sent ?s1"
      by (simp only: idem)
    also have "\<dots> = sent s @ [(''chart.insert_page_range'', PageRangeArgs r ?k)]"
      using that by (simp add: add_page_range_a_new)
    finally show "sent (add_page_range_a r ?s1) = sent s @ [(''chart.insert_page_range'', PageRangeArgs r ?k)]" .
  qed
  have before: "\<forall>p \<in> set (take ?k ?pl). fst p \<le> fst r"
    by (metis set_takeWhileD takeWhile_eq_take)
  have at: "?k < length ?pl \<longrightarrow> fst r < fst (?pl ! ?k)"
    using nth_length_takeWhile [of ?P ?pl] by (simp add: not_le)
  have seq: "sorted (map fst ?pl) \<and> distinct ?pl \<longrightarrow>
           sorted (map fst (page_list (data (foldl (\<lambda>s r. add_page_range_a r s) s rs))))
         \<and> distinct (page_list (data (foldl (\<lambda>s r. add_page_range_a r s) s rs)))"
    using foldl_add_page_range_a_keeps_order by blast
  have fresh: "sorted (map fst (page_list (data (foldl (\<lambda>s r. add_page_range_a r s)
                 (SpectralSequenceChart_init hash nm st) rs))))
     \<and> distinct (page_list (data (foldl (\<lambda>s r. add_page_range_a r s)
                 (SpectralSequenceChart_init hash nm st) rs)))"
    by (rule foldl_add_page_range_a_keeps_order) (simp_all add: init_page_list)
  show ?thesis
    unfolding Let_def using old idem new before at seq fresh by blast
qed

lemma fresh_chart_simps:
  "page_list (data fresh_chart) = [(2, 65535), (65535, 65535)]"
  "sent fresh_chart = []"
  by (simp_all add: fresh_chart_def init_defs split_def Let_def)

theorem add_page_range_a_idempotent_sorted_witness:
  "(3, 3) \<notin> set (page_list (data fresh_chart))
   \<and> page_list (data (add_page_range_a (3, 3) fresh_chart)) = [(2, 65535), (3, 3), (65535, 65535)]
   \<and> sent (add_page_range_a (3, 3) (add_page_range_a (3, 3) fresh_chart))
       = [(''chart.insert_page_range'', PageRangeArgs (3, 3) 1)]
   \<and> sorted (map fst (page_list (data fresh_chart))) \<and> distinct (page_list (data fresh_chart))
   \<and> sorted (map fst (page_list (data (foldl (\<lambda>s r. add_page_range_a r s) fresh_chart
          [(3, 3), (1, 5), (3, 3)]))))"
proof -
  have new: "(3, 3) \<notin> set (page_list (data fresh_chart))"
    by (simp add: fresh_chart_simps)
  have ord: "sorted (map fst (page_list (data fresh_chart))) \<and> distinct (page_list (data fresh_chart))"
    by (simp add: fresh_chart_simps)
  have k: "length (takeWhile (\<lambda>p. fst p \<le> fst (3 :: int, 3 :: int)) (page_list (data fresh_chart))) = 1"
    by (simp add: fresh_chart_simps)
  note inst = add_page_range_a_idempotent_sorted
      [where r = "(3, 3)" and s = fresh_chart and rs = "[(3, 3), (1, 5), (3, 3)]"
       and hash = "\<lambda>r n. int r" and nm = "''chart''" and st = blank_store, unfolded Let_def k]
  from inst new have
    "page_list (data (add_page_range_a (3, 3) fresh_chart))
       = take 1 (page_list (data fresh_chart)) @ (3, 3) # drop 1 (page_list (data fresh_chart))"
    and "sent (add_page_range_a (3, 3) (add_page_range_a (3, 3) fresh_chart))
       = sent fresh_chart @ [(''chart.insert_page_range'', PageRangeArgs (3, 3) 1)]"
    by blast+
  moreover from inst ord have
    "sorted (map fst (page_list (data (foldl (\<lambda>s r. add_page_range_a r s) fresh_chart
          [(3, 3), (1, 5), (3, 3)]))))"
    by blast
  ultimately show ?thesis
    using new ord by (simp add: fresh_chart_simps)
qed

subsection \<open>The dirty set and its flush\<close>

lemma queue_updates_data:
  "updated_elements (data (queue_updates es s)) = updated_elements (data s) \<union> set es"
  by (induction es arbitrary: s) (auto simp: queue_update_def add_element_to_update_def)

lemma queue_updates_sent: "sent (queue_updates es s) = sent s"
  by (induction es arbitrary: s) (auto simp: queue_update_def)

lemma update_a_sent:
  "sent (update_a s) = sent s @ [(''chart.class.update'', UpdateArgs (updated_elements (data s)))]"
  by (simp add: update_a_def broadcast_a_def Let_def)

lemma update_a_clears: "updated_elements (data (update_a s)) = {}"
  by (simp add: update_a_def broadcast_a_def Let_def)

text \<open>
  C2. After N calls of \<^verbatim>\<open>add_element_to_update\<close> touching M distinct elements (M \<open>\<le>\<close> N: the
  set of a list has at most as many members as the list), \<^verbatim>\<open>update_a\<close> broadcasts exactly
  one \<^verbatim>\<open>chart.class.update\<close>, whose batch is the dirty set as it stood before the calls
  together with exactly the queued elements, each once; on a chart whose dirty set was empty
  the batch is exactly the M distinct elements. The dirty set is empty right afterwards, so
  the next flush carries only what was queued after this one: nothing is lost and nothing
  is broadcast twice.
\<close>

theorem update_a_one_batch:
  "(let s1 = queue_updates es s; s2 = update_a s1; s3 = update_a (queue_updates es' s2) in
      sent s2 = sent s @ [(''chart.class.update'', UpdateArgs (updated_elements (data s) \<union> set es))]
    \<and> updated_elements (data s2) = {}
    \<and> card (set es) \<le> length es
    \<and> (updated_elements (data s) = {} \<longrightarrow>
          emitted s s2 = [(''chart.class.update'', UpdateArgs (set es))])
    \<and> sent s3 = sent s2 @ [(''chart.class.update'', UpdateArgs (set es'))]
    \<and> updated_elements (data s3) = {})"
  by (simp add: Let_def update_a_sent update_a_clears queue_updates_data queue_updates_sent
      emitted_def card_length)

theorem update_a_one_batch_witness:
  "updated_elements (data fresh_chart) = {}
   \<and> emitted fresh_chart (update_a (queue_updates [5, 7, 5, 5, 7] fresh_chart))
       = [(''chart.class.update'', UpdateArgs {5, 7})]
   \<and> card {5 :: ref, 7} = 2"
proof -
  have e: "updated_elements (data fresh_chart) = {}"
    by (simp add: fresh_chart_def SpectralSequenceChart_init_def ChartData_init_def
        ChartNode_new_def upd_node_def split_def Let_def)
  from update_a_one_batch [where s = fresh_chart and es = "[5, 7, 5, 5, 7]" and es' = "[]", unfolded Let_def] e
  have "emitted fresh_chart (update_a (queue_updates [5, 7, 5, 5, 7] fresh_chart))
       = [(''chart.class.update'', UpdateArgs (set [5, 7, 5, 5, 7]))]"
    by blast
  moreover have "set [5 :: ref, 7, 5, 5, 7] = {5, 7}" by auto
  ultimately show ?thesis using e by simp
qed

subsection \<open>What each operation sends\<close>




lemma add_class_a_fst: "fst (add_class_a sf cx cy kw s) = next_ref (objs s)"
  by (simp add: add_class_a_def ChartClass_new_def Let_def split_def)

lemma add_page_simps:
  "data (add_page c page s) = data s"
  "sent (add_page c page s) = sent s"
  "class_id (class_at (objs (add_page c page s)) r) = class_id (class_at (objs s) r)"
  by (simp_all add: add_page_def upd_class_def)

lemma update_a_simps:
  "objs (update_a s) = objs s"
  "edges (data (update_a s)) = edges (data s)"
  "page_list (data (update_a s)) = page_list (data s)"
  by (simp_all add: update_a_def broadcast_a_def Let_def)

lemma add_page_range_a_simps:
  "objs (add_page_range_a r s) = objs s"
  "edges (data (add_page_range_a r s)) = edges (data s)"
  "updated_elements (data (add_page_range_a r s)) = updated_elements (data s)"
  by (cases "r \<in> set (page_list (data s))";
      simp add: add_page_range_a_old add_page_range_a_new)+

lemma add_page_range_a_sent:
  "sent (add_page_range_a r s) = sent s @
     (if r \<in> set (page_list (data s)) then []
      else [(''chart.insert_page_range'',
             PageRangeArgs r (length (takeWhile (\<lambda>p. fst p \<le> fst r) (page_list (data s)))))])"
  by (simp add: add_page_range_a_old add_page_range_a_new)

subsection \<open>The state each operation leaves\<close>

lemma add_class_a_plain:
  assumes "map_of kw ''color'' = None"
  shows "add_class_a sf cx cy kw s = (next_ref (objs s), with_class cx cy kw s)"
  using assms
  by (cases "classes_by_bidegree (data s) (cx, cy)")
     (simp_all add: add_class_a_def ChartClass_new_def upd_class_def broadcast_a_def new_class_def
         with_class_def Let_def)

lemma edge_built:
  "(let (e, st1) = ChartEdge_new ty pg src tgt kw (objs s)
    in case call_add_edge_a e kw' (s\<lparr>objs := st1\<rparr>) of
         (Inl err, s1) \<Rightarrow> (Inl err, s1)
       | (Inr _, s1) \<Rightarrow> (Inr e, s1)) = after_edge_call ty pg src tgt kw kw' s"
  by (simp add: ChartEdge_new_def call_add_edge_a_def add_edge_a_def upd_edge_def upd_class_def
      broadcast_a_def after_edge_call_def with_built_edge_def with_edge_def new_edge_def
      link_edge_def Let_def)

lemma add_structline_a_eq:
  "add_structline_a src tgt kw s = after_edge_call ChartStructline None src tgt kw kw s"
  unfolding add_structline_a_def by (rule edge_built)

lemma add_extension_a_eq:
  "add_extension_a src tgt kw s = after_edge_call ChartExtension None src tgt kw kw s"
  unfolding add_extension_a_def by (rule edge_built)

lemma add_differential_a_eq:
  "add_differential_a page src tgt auto kw s =
     after_edge_call ChartDifferential (Some page) src tgt kw ((''page'', PyInt page) # kw)
       (if auto then differential_prelude page src tgt s else s)"
  unfolding add_differential_a_def differential_prelude_def Let_def
  by (rule edge_built [unfolded Let_def])

lemma repeated_page:
  "repeated [''e''] ((''page'', v) # kw) = repeated [''e''] kw"
  "repeated [''type'', ''id'', ''source'', ''target''] ((''page'', v) # kw)
     = repeated [''type'', ''id'', ''source'', ''target''] kw"
  by (simp_all add: repeated_def)

lemma after_edge_call_ok:
  assumes "edge_fields_ok kw"
  shows "after_edge_call ty pg src tgt kw0 kw s = (Inr (next_ref (objs s)), with_edge ty pg src tgt kw0 kw s)"
    and "after_edge_call ty pg src tgt kw0 ((''page'', v) # kw) s
           = (Inr (next_ref (objs s)), with_edge ty pg src tgt kw0 ((''page'', v) # kw) s)"
  using assms by (simp_all add: after_edge_call_def edge_fields_ok_def repeated_page)

lemma edge_fields_ok_Nil: "edge_fields_ok []"
  by (simp add: edge_fields_ok_def repeated_def)

subsection \<open>Readings of the state after a call\<close>

lemma with_class_simps:
  "classes (data (with_class cx cy kw s)) = classes (data s) @ [next_ref (objs s)]"
  "edges (data (with_class cx cy kw s)) = edges (data s)"
  "nodes (data (with_class cx cy kw s)) = nodes (data s)"
  "page_list (data (with_class cx cy kw s)) = page_list (data s)"
  "updated_elements (data (with_class cx cy kw s)) = updated_elements (data s)"
  "classes_by_bidegree (data (with_class cx cy kw s)) =
     (classes_by_bidegree (data s))
        ((cx, cy) \<mapsto> (case classes_by_bidegree (data s) (cx, cy) of
                        None \<Rightarrow> [] | Some cs \<Rightarrow> cs) @ [next_ref (objs s)])"
  "class_at (objs (with_class cx cy kw s)) =
     (class_at (objs s))(next_ref (objs s) := new_class cx cy kw (length (classes (data s))))"
  "edge_at (objs (with_class cx cy kw s)) = edge_at (objs s)"
  "node_at (objs (with_class cx cy kw s)) = node_at (objs s)"
  "next_ref (objs (with_class cx cy kw s)) = Suc (next_ref (objs s))"
  "sent (with_class cx cy kw s) = sent s @ [(''chart.class.add'', ClassArgs (next_ref (objs s)))]"
  by (simp_all add: with_class_def)

lemma with_edge_simps:
  "classes (data (with_edge ty pg src tgt kw kw' s)) = classes (data s)"
  "edges (data (with_edge ty pg src tgt kw kw' s)) = edges (data s) @ [next_ref (objs s)]"
  "nodes (data (with_edge ty pg src tgt kw kw' s)) = nodes (data s)"
  "page_list (data (with_edge ty pg src tgt kw kw' s)) = page_list (data s)"
  "updated_elements (data (with_edge ty pg src tgt kw kw' s)) = updated_elements (data s)"
  "classes_by_bidegree (data (with_edge ty pg src tgt kw kw' s)) = classes_by_bidegree (data s)"
  "class_at (objs (with_edge ty pg src tgt kw kw' s)) =
     link_edge (next_ref (objs s)) tgt (link_edge (next_ref (objs s)) src (class_at (objs s)))"
  "edge_at (objs (with_edge ty pg src tgt kw kw' s)) =
     (edge_at (objs s))(next_ref (objs s) := new_edge ty pg src tgt kw (length (edges (data s))))"
  "node_at (objs (with_edge ty pg src tgt kw kw' s)) = node_at (objs s)"
  "next_ref (objs (with_edge ty pg src tgt kw kw' s)) = Suc (next_ref (objs s))"
  "sent (with_edge ty pg src tgt kw kw' s) = sent s @ [(''chart.edge.add'',
      EdgeArgs ty (Some (length (edges (data s))))
        (class_id (class_at (objs s) src)) (class_id (class_at (objs s) tgt)) kw')]"
  by (simp_all add: with_edge_def)

lemma link_edge_simps:
  "class_id (link_edge e c ca r) = class_id (ca r)"
  "class_x (link_edge e c ca r) = class_x (ca r)"
  "class_y (link_edge e c ca r) = class_y (ca r)"
  "class_pages (link_edge e c ca r) = class_pages (ca r)"
  "class_edges (link_edge e c ca r) = class_edges (ca r) @ (if r = c then [e] else [])"
  by (simp_all add: link_edge_def)

lemma add_page_range_a_data:
  "classes (data (add_page_range_a r s)) = classes (data s)"
  "nodes (data (add_page_range_a r s)) = nodes (data s)"
  "classes_by_bidegree (data (add_page_range_a r s)) = classes_by_bidegree (data s)"
  by (cases "r \<in> set (page_list (data s))";
      simp add: add_page_range_a_old add_page_range_a_new)+

lemma differential_prelude_simps:
  "classes (data (differential_prelude page src tgt s)) = classes (data s)"
  "edges (data (differential_prelude page src tgt s)) = edges (data s)"
  "nodes (data (differential_prelude page src tgt s)) = nodes (data s)"
  "classes_by_bidegree (data (differential_prelude page src tgt s)) = classes_by_bidegree (data s)"
  "updated_elements (data (differential_prelude page src tgt s)) = {}"
  "page_list (data (differential_prelude page src tgt s)) = page_list (data (add_page_range_a (page, page) s))"
  "edge_at (objs (differential_prelude page src tgt s)) = edge_at (objs s)"
  "node_at (objs (differential_prelude page src tgt s)) = node_at (objs s)"
  "next_ref (objs (differential_prelude page src tgt s)) = next_ref (objs s)"
  "class_id (class_at (objs (differential_prelude page src tgt s)) r) = class_id (class_at (objs s) r)"
  "class_x (class_at (objs (differential_prelude page src tgt s)) r) = class_x (class_at (objs s) r)"
  "class_y (class_at (objs (differential_prelude page src tgt s)) r) = class_y (class_at (objs s) r)"
  "class_edges (class_at (objs (differential_prelude page src tgt s)) r) = class_edges (class_at (objs s) r)"
  "class_pages (class_at (objs (differential_prelude page src tgt s)) r) =
     class_pages (class_at (objs s) r) @ (if r = src then [page] else []) @ (if r = tgt then [page] else [])"
  "sent (differential_prelude page src tgt s) = sent s @
     (if (page, page) \<in> set (page_list (data s)) then []
      else [(''chart.insert_page_range'',
             PageRangeArgs (page, page)
               (length (takeWhile (\<lambda>p. fst p \<le> page) (page_list (data s)))))]) @
     [(''chart.class.update'', UpdateArgs (updated_elements (data s)))]"
proof -
  let ?s1 = "add_page tgt page (add_page src page s)"
  have d: "data ?s1 = data s" and m: "sent ?s1 = sent s"
    by (simp_all add: add_page_simps)
  have o: "objs (differential_prelude page src tgt s) = objs ?s1"
    by (simp add: differential_prelude_def update_a_simps add_page_range_a_simps)
  show "classes (data (differential_prelude page src tgt s)) = classes (data s)"
    "nodes (data (differential_prelude page src tgt s)) = nodes (data s)"
    "classes_by_bidegree (data (differential_prelude page src tgt s)) = classes_by_bidegree (data s)"
    by (simp_all add: differential_prelude_def update_a_def broadcast_a_def Let_def
        add_page_range_a_data d)
  show "edges (data (differential_prelude page src tgt s)) = edges (data s)"
    by (simp add: differential_prelude_def update_a_simps add_page_range_a_simps d)
  show "updated_elements (data (differential_prelude page src tgt s)) = {}"
    by (simp add: differential_prelude_def update_a_clears)
  show "page_list (data (differential_prelude page src tgt s)) = page_list (data (add_page_range_a (page, page) s))"
    by (cases "(page, page) \<in> set (page_list (data s))")
       (simp_all add: differential_prelude_def update_a_simps add_page_range_a_old
          add_page_range_a_new d)
  show "edge_at (objs (differential_prelude page src tgt s)) = edge_at (objs s)"
    "node_at (objs (differential_prelude page src tgt s)) = node_at (objs s)"
    "next_ref (objs (differential_prelude page src tgt s)) = next_ref (objs s)"
    "class_id (class_at (objs (differential_prelude page src tgt s)) r) = class_id (class_at (objs s) r)"
    "class_x (class_at (objs (differential_prelude page src tgt s)) r) = class_x (class_at (objs s) r)"
    "class_y (class_at (objs (differential_prelude page src tgt s)) r) = class_y (class_at (objs s) r)"
    "class_edges (class_at (objs (differential_prelude page src tgt s)) r) = class_edges (class_at (objs s) r)"
    "class_pages (class_at (objs (differential_prelude page src tgt s)) r) =
       class_pages (class_at (objs s) r) @ (if r = src then [page] else []) @ (if r = tgt then [page] else [])"
    by (simp_all add: o add_page_def upd_class_def)
  show "sent (differential_prelude page src tgt s) = sent s @
     (if (page, page) \<in> set (page_list (data s)) then []
      else [(''chart.insert_page_range'',
             PageRangeArgs (page, page)
               (length (takeWhile (\<lambda>p. fst p \<le> page) (page_list (data s)))))]) @
     [(''chart.class.update'', UpdateArgs (updated_elements (data s)))]"
    by (simp add: differential_prelude_def update_a_sent add_page_range_a_sent
        add_page_range_a_simps d m)
qed

subsection \<open>What an edge call sends, returns and leaves\<close>

lemma with_built_edge_simps:
  "data (with_built_edge ty pg src tgt kw s) = data s"
  "sent (with_built_edge ty pg src tgt kw s) = sent s"
  "class_at (objs (with_built_edge ty pg src tgt kw s)) = class_at (objs s)"
  "node_at (objs (with_built_edge ty pg src tgt kw s)) = node_at (objs s)"
  "edge_at (objs (with_built_edge ty pg src tgt kw s)) =
     (edge_at (objs s))(next_ref (objs s) :=
        \<lparr>etype = ty, edge_id = None, edge_source = src, edge_target = tgt,
         edge_page = pg, edge_attrs = kw\<rparr>)"
  "next_ref (objs (with_built_edge ty pg src tgt kw s)) = Suc (next_ref (objs s))"
  by (simp_all add: with_built_edge_def)

lemma after_edge_call_sent:
  "sent (snd (after_edge_call ty pg src tgt kw0 kw s)) = sent s @
     (if edge_fields_ok kw
      then [(''chart.edge.add'',
             EdgeArgs ty (Some (length (edges (data s))))
               (class_id (class_at (objs s) src)) (class_id (class_at (objs s) tgt)) kw)]
      else [])"
  by (simp add: after_edge_call_def edge_fields_ok_def with_edge_simps with_built_edge_simps)


lemma after_edge_call_state:
  "page_list (data (snd (after_edge_call ty pg src tgt kw0 kw s))) = page_list (data s)"
  "updated_elements (data (snd (after_edge_call ty pg src tgt kw0 kw s))) = updated_elements (data s)"
  "classes (data (snd (after_edge_call ty pg src tgt kw0 kw s))) = classes (data s)"
  "nodes (data (snd (after_edge_call ty pg src tgt kw0 kw s))) = nodes (data s)"
  "class_pages (class_at (objs (snd (after_edge_call ty pg src tgt kw0 kw s))) r)
     = class_pages (class_at (objs s) r)"
  by (simp_all add: after_edge_call_def with_edge_simps with_built_edge_simps link_edge_simps)

lemma edge_fields_ok_page: "edge_fields_ok ((''page'', v) # kw) = edge_fields_ok kw"
  by (simp add: edge_fields_ok_def repeated_page)




lemma add_differential_a_auto_sent:
  "sent (snd (add_differential_a page src tgt True kw s)) = sent s @
     (if (page, page) \<in> set (page_list (data s)) then []
      else [(''chart.insert_page_range'',
             PageRangeArgs (page, page)
               (length (takeWhile (\<lambda>p. fst p \<le> page) (page_list (data s)))))]) @
     [(''chart.class.update'', UpdateArgs (updated_elements (data s)))] @
     (if edge_fields_ok kw
      then [(''chart.edge.add'',
             EdgeArgs ChartDifferential (Some (length (edges (data s))))
               (class_id (class_at (objs s) src)) (class_id (class_at (objs s) tgt))
               ((''page'', PyInt page) # kw))]
      else [])"
  by (simp add: add_differential_a_eq after_edge_call_sent edge_fields_ok_page
      differential_prelude_simps)


subsection \<open>Two classes and a structline\<close>

lemma init_simps:
  fixes hash :: "ref \<Rightarrow> chart_node \<Rightarrow> int"
  shows
  "classes (data (SpectralSequenceChart_init hash nm st)) = []"
  "edges (data (SpectralSequenceChart_init hash nm st)) = []"
  "nodes (data (SpectralSequenceChart_init hash nm st)) = [next_ref st]"
  "classes_by_bidegree (data (SpectralSequenceChart_init hash nm st)) = Map.empty"
  "updated_elements (data (SpectralSequenceChart_init hash nm st)) = {}"
  "sent (SpectralSequenceChart_init hash nm st) = []"
  "next_ref (objs (SpectralSequenceChart_init hash nm st)) = Suc (next_ref st)"
  "node_at (objs (SpectralSequenceChart_init hash nm st)) =
     (node_at st)(next_ref st := \<lparr>shape = ''circle'', idx = Some 0\<rparr>)"
  "class_at (objs (SpectralSequenceChart_init hash nm st)) = class_at st"
  "edge_at (objs (SpectralSequenceChart_init hash nm st)) = edge_at st"
  by (simp_all add: init_defs split_def Let_def)

text \<open>
  C8. On a fresh chart, \<^verbatim>\<open>add_class(0, 0)\<close>, then \<^verbatim>\<open>add_class(1, 2)\<close>, then
  \<^verbatim>\<open>add_structline(first, second)\<close> leave exactly two classes, two distinct objects with
  the ids 0 and 1 in the order of their creation, and exactly one edge, a structline with
  id 0 that the call returns, that is stored with the first class as its source and the
  second as its target and is broadcast with source id 0 and target id 1; the edge is the
  one entry of the incident-edge list of each of the two classes.
\<close>

theorem two_classes_one_structline:
  fixes hash :: "ref \<Rightarrow> chart_node \<Rightarrow> int"
  shows
  "(let s0 = SpectralSequenceChart_init hash nm st;
        (c1, s1) = add_class_a sf 0 0 [] s0;
        (c2, s2) = add_class_a sf 1 2 [] s1;
        (r, s3) = add_structline_a c1 c2 [] s2;
        e = next_ref (objs s2)
    in r = Inr e
     \<and> classes (data s3) = [c1, c2] \<and> c1 \<noteq> c2
     \<and> class_id (class_at (objs s3) c1) = Some 0
     \<and> class_id (class_at (objs s3) c2) = Some 1
     \<and> (class_x (class_at (objs s3) c1), class_y (class_at (objs s3) c1)) = (0, 0)
     \<and> (class_x (class_at (objs s3) c2), class_y (class_at (objs s3) c2)) = (1, 2)
     \<and> edges (data s3) = [e]
     \<and> edge_at (objs s3) e =
           \<lparr>etype = ChartStructline, edge_id = Some 0, edge_source = c1, edge_target = c2,
            edge_page = None, edge_attrs = []\<rparr>
     \<and> class_edges (class_at (objs s3) c1) = [e]
     \<and> class_edges (class_at (objs s3) c2) = [e]
     \<and> sent s3 =
           [(''chart.class.add'', ClassArgs c1), (''chart.class.add'', ClassArgs c2),
            (''chart.edge.add'', EdgeArgs ChartStructline (Some 0) (Some 0) (Some 1) [])])"
  by (simp add: add_class_a_plain add_structline_a_eq after_edge_call_ok edge_fields_ok_Nil
      with_class_simps with_edge_simps link_edge_simps init_simps new_class_def new_edge_def)

subsection \<open>The order of the broadcasts of a differential\<close>

text \<open>
  C4. A call \<^verbatim>\<open>add_differential(page, source, target)\<close> with \<^verbatim>\<open>auto\<close> set is the call
  without \<^verbatim>\<open>auto\<close> made after three steps: the page is recorded on the source and on the
  target class, \<^verbatim>\<open>add_page_range([page, page])\<close> is called, and the pending updates are
  flushed. So the log grows by the \<^verbatim>\<open>chart.insert_page_range\<close> message when the range is
  new, then the \<^verbatim>\<open>chart.class.update\<close> batch with the whole dirty set, and only then the
  \<^verbatim>\<open>chart.edge.add\<close> of the differential, which the call returns; afterwards both
  endpoints carry the page, [page, page] is in the page list and the dirty set is empty.
  (Keyword fields, which the claim's call does not have, change this only when one of them
  repeats a name the edge call binds: then the TypeError takes the place of the
  \<^verbatim>\<open>chart.edge.add\<close>, after the same first steps.)
\<close>

theorem add_differential_a_auto_order:
  "(let s' = snd (add_differential_a page src tgt True kw s);
        pl = page_list (data s);
        s1 = update_a (add_page_range_a (page, page) (add_page tgt page (add_page src page s)));
        first_steps =
          (if (page, page) \<in> set pl then []
           else [(''chart.insert_page_range'',
                  PageRangeArgs (page, page) (length (takeWhile (\<lambda>p. fst p \<le> page) pl)))]) @
          [(''chart.class.update'', UpdateArgs (updated_elements (data s)))]
    in add_differential_a page src tgt True kw s = add_differential_a page src tgt False kw s1
     \<and> fst (add_differential_a page src tgt True [] s) = Inr (next_ref (objs s))
     \<and> sent (snd (add_differential_a page src tgt True [] s)) = sent s @ first_steps @
         [(''chart.edge.add'',
           EdgeArgs ChartDifferential (Some (length (edges (data s))))
             (class_id (class_at (objs s) src)) (class_id (class_at (objs s) tgt))
             [(''page'', PyInt page)])]
     \<and> sent s' = sent s @ first_steps @
         (if edge_fields_ok kw
          then [(''chart.edge.add'',
                 EdgeArgs ChartDifferential (Some (length (edges (data s))))
                   (class_id (class_at (objs s) src)) (class_id (class_at (objs s) tgt))
                   ((''page'', PyInt page) # kw))]
          else [])
     \<and> page \<in> set (class_pages (class_at (objs s') src))
     \<and> page \<in> set (class_pages (class_at (objs s') tgt))
     \<and> (page, page) \<in> set (page_list (data s'))
     \<and> updated_elements (data s') = {})"
proof -
  let ?s1 = "differential_prelude page src tgt s"
  let ?s' = "snd (add_differential_a page src tgt True kw s)"
  let ?first = "(if (page, page) \<in> set (page_list (data s)) then []
           else [(''chart.insert_page_range'',
                  PageRangeArgs (page, page)
                    (length (takeWhile (\<lambda>p. fst p \<le> page) (page_list (data s)))))]) @
          [(''chart.class.update'', UpdateArgs (updated_elements (data s)))]"
  have eq: "add_differential_a page src tgt True kw s = add_differential_a page src tgt False kw ?s1"
    by (simp add: add_differential_a_eq)
  have s': "?s' = snd (after_edge_call ChartDifferential (Some page) src tgt kw
                        ((''page'', PyInt page) # kw) ?s1)"
    by (simp add: add_differential_a_eq)
  have ret: "fst (add_differential_a page src tgt True [] s) = Inr (next_ref (objs s))"
    by (simp add: add_differential_a_eq after_edge_call_ok edge_fields_ok_Nil
        differential_prelude_simps)
  have plain: "sent (snd (add_differential_a page src tgt True [] s)) = sent s @ ?first @
         [(''chart.edge.add'',
           EdgeArgs ChartDifferential (Some (length (edges (data s))))
             (class_id (class_at (objs s) src)) (class_id (class_at (objs s) tgt))
             [(''page'', PyInt page)])]"
    by (simp add: add_differential_a_auto_sent edge_fields_ok_Nil)
  have log: "sent ?s' = sent s @ ?first @
         (if edge_fields_ok kw
          then [(''chart.edge.add'',
                 EdgeArgs ChartDifferential (Some (length (edges (data s))))
                   (class_id (class_at (objs s) src)) (class_id (class_at (objs s) tgt))
                   ((''page'', PyInt page) # kw))]
          else [])"
    by (simp add: add_differential_a_auto_sent)
  have pages: "page \<in> set (class_pages (class_at (objs ?s') src))"
    "page \<in> set (class_pages (class_at (objs ?s') tgt))"
    by (simp_all add: s' after_edge_call_state differential_prelude_simps)
  have range: "(page, page) \<in> set (page_list (data ?s'))"
    by (simp add: s' after_edge_call_state differential_prelude_simps add_page_range_a_mem)
  have clean: "updated_elements (data ?s') = {}"
    by (simp add: s' after_edge_call_state differential_prelude_simps)
  show ?thesis
    unfolding Let_def using eq ret plain log pages range clean
    by (simp only: differential_prelude_def simp_thms)
qed

subsection \<open>How many messages a call sends\<close>


lemma two_class_chart_eq:
  "two_class_chart = with_class 0 3 [] (with_class 1 0 [] fresh_chart)"
  by (simp add: two_class_chart_def add_class_a_plain)

lemma two_class_chart_simps:
  "page_list (data two_class_chart) = [(2, 65535), (65535, 65535)]"
  "classes (data two_class_chart) = [1, 2]"
  "edges (data two_class_chart) = []"
  "next_ref (objs two_class_chart) = 3"
  "class_x (class_at (objs two_class_chart) 1) = 1"
  "class_y (class_at (objs two_class_chart) 1) = 0"
  "class_x (class_at (objs two_class_chart) 2) = 0"
  "class_y (class_at (objs two_class_chart) 2) = 3"
  "class_id (class_at (objs two_class_chart) 1) = Some 0"
  "class_id (class_at (objs two_class_chart) 2) = Some 1"
  "updated_elements (data two_class_chart) = {}"
  by (simp_all add: two_class_chart_eq with_class_simps fresh_chart_def init_simps
      init_page_list new_class_def blank_store_def)




text \<open>
  The two refused calls on the chart with the two classes: with a field named \<^verbatim>\<open>id\<close> the
  edge is appended and nothing is sent, with a field named \<^verbatim>\<open>e\<close> the edge is not even
  appended.
\<close>

lemma structline_refused:
  "fst (add_structline_a 1 2 [(''id'', PyInt 7)] two_class_chart) = Inl (TypeError ''arguments'')"
  "emitted two_class_chart (snd (add_structline_a 1 2 [(''id'', PyInt 7)] two_class_chart)) = []"
  "edges (data (snd (add_structline_a 1 2 [(''id'', PyInt 7)] two_class_chart))) = [3]"
  "fst (add_structline_a 1 2 [(''e'', PyInt 7)] two_class_chart) = Inl (TypeError ''add_edge_a'')"
  "edges (data (snd (add_structline_a 1 2 [(''e'', PyInt 7)] two_class_chart))) = []"
  by (simp_all add: add_structline_a_eq after_edge_call_def repeated_def emitted_def
      with_edge_simps with_built_edge_simps two_class_chart_simps)

subsection \<open>Index identity, step by step\<close>

lemma add_node_a_simps:
  "nodes (data (add_node_a n s)) = nodes (data s) @ [n]"
  "classes (data (add_node_a n s)) = classes (data s)"
  "edges (data (add_node_a n s)) = edges (data s)"
  "classes_by_bidegree (data (add_node_a n s)) = classes_by_bidegree (data s)"
  "node_at (objs (add_node_a n s)) =
     (node_at (objs s))(n := (node_at (objs s) n)\<lparr>idx := Some (length (nodes (data s)))\<rparr>)"
  "class_at (objs (add_node_a n s)) = class_at (objs s)"
  "edge_at (objs (add_node_a n s)) = edge_at (objs s)"
  "next_ref (objs (add_node_a n s)) = next_ref (objs s)"
  by (simp_all add: add_node_a_def upd_node_def broadcast_a_def Let_def)

lemma map_Some_upt_Suc: "map Some [0 ..< Suc k] = map Some [0 ..< k] @ [Some k]"
  by simp

lemma in_own_bidegree_cong:
  assumes "class_x (class_at (objs s') c) = class_x (class_at (objs s) c)"
    and "class_y (class_at (objs s') c) = class_y (class_at (objs s) c)"
    and "classes_by_bidegree (data s') = classes_by_bidegree (data s)"
  shows "in_own_bidegree s' c = in_own_bidegree s c"
  using assms by (simp add: in_own_bidegree_def)

lemma index_identity_add_node_a:
  assumes "index_identity s" and "n \<notin> set (nodes (data s))"
  shows "index_identity (add_node_a n s)"
proof -
  have old: "map (\<lambda>r. idx (node_at (objs (add_node_a n s)) r)) (nodes (data s))
             = map (\<lambda>r. idx (node_at (objs s) r)) (nodes (data s))"
    using assms(2) by (intro map_cong refl) (auto simp: add_node_a_simps)
  have own: "list_all (in_own_bidegree (add_node_a n s)) (classes (data s))
             = list_all (in_own_bidegree s) (classes (data s))"
    by (intro list.pred_cong refl in_own_bidegree_cong) (simp_all add: add_node_a_simps)
  show ?thesis
    using assms(1) old own
    by (simp add: index_identity_def add_node_a_simps)
qed

lemma allocated_add_node_a: "allocated (add_node_a n s) = allocated s"
  by (simp add: allocated_def add_node_a_simps)


lemma allocated_fresh:
  assumes "allocated s"
  shows "next_ref (objs s) \<notin> set (classes (data s))" and "next_ref (objs s) \<notin> set (edges (data s))"
  using assms by (auto simp: allocated_def list_all_iff)

lemma index_identity_with_class:
  assumes "index_identity s" and "allocated s"
  shows "index_identity (with_class cx cy kw s)"
proof -
  let ?c = "next_ref (objs s)" and ?s' = "with_class cx cy kw s"
  have fresh: "?c \<notin> set (classes (data s))"
    using assms(2) by (rule allocated_fresh)
  have ids: "map (\<lambda>r. class_id (class_at (objs ?s') r)) (classes (data s))
             = map (\<lambda>r. class_id (class_at (objs s) r)) (classes (data s))"
    using fresh by (intro map_cong refl) (auto simp: with_class_simps)
  have new_id: "class_id (class_at (objs ?s') ?c) = Some (length (classes (data s)))"
    by (simp add: with_class_simps new_class_def)
  have old_own: "in_own_bidegree ?s' r" if "r \<in> set (classes (data s))" and "in_own_bidegree s r" for r
  proof -
    from that(1) fresh have "r \<noteq> ?c" by auto
    with that(2) show ?thesis
      by (auto simp: in_own_bidegree_def with_class_simps split: option.splits)
  qed
  have new_own: "in_own_bidegree ?s' ?c"
    by (simp add: in_own_bidegree_def with_class_simps new_class_def)
  from assms(1) have "list_all (in_own_bidegree s) (classes (data s))"
    by (simp add: index_identity_def)
  with old_own have own: "list_all (in_own_bidegree ?s') (classes (data s))"
    by (auto simp: list_all_iff)
  show ?thesis
    using assms(1) ids new_id own new_own
    by (simp add: index_identity_def with_class_simps)
qed

lemma allocated_with_class:
  assumes "allocated s"
  shows "allocated (with_class cx cy kw s)"
  using assms by (auto simp: allocated_def with_class_simps list_all_iff less_Suc_eq)

lemma index_identity_with_edge:
  assumes "index_identity s" and "allocated s"
  shows "index_identity (with_edge ty pg src tgt kw kw' s)"
proof -
  let ?e = "next_ref (objs s)" and ?s' = "with_edge ty pg src tgt kw kw' s"
  have fresh: "?e \<notin> set (edges (data s))"
    using assms(2) by (rule allocated_fresh)
  have ids: "map (\<lambda>r. edge_id (edge_at (objs ?s') r)) (edges (data s))
             = map (\<lambda>r. edge_id (edge_at (objs s) r)) (edges (data s))"
    using fresh by (intro map_cong refl) (auto simp: with_edge_simps)
  have new_id: "edge_id (edge_at (objs ?s') ?e) = Some (length (edges (data s)))"
    by (simp add: with_edge_simps new_edge_def)
  have own: "list_all (in_own_bidegree ?s') (classes (data s))
             = list_all (in_own_bidegree s) (classes (data s))"
    by (intro list.pred_cong refl in_own_bidegree_cong)
       (simp_all add: with_edge_simps link_edge_simps)
  show ?thesis
    using assms(1) ids new_id own
    by (simp add: index_identity_def with_edge_simps link_edge_simps)
qed

lemma allocated_with_edge:
  assumes "allocated s"
  shows "allocated (with_edge ty pg src tgt kw kw' s)"
  using assms by (auto simp: allocated_def with_edge_simps list_all_iff less_Suc_eq)

lemma index_identity_differential_prelude:
  assumes "index_identity s"
  shows "index_identity (differential_prelude page src tgt s)"
proof -
  have own: "list_all (in_own_bidegree (differential_prelude page src tgt s)) (classes (data s))
             = list_all (in_own_bidegree s) (classes (data s))"
    by (intro list.pred_cong refl in_own_bidegree_cong)
       (simp_all add: differential_prelude_simps)
  have n: "node_at (objs (differential_prelude page src tgt s)) = node_at (objs s)"
    by (simp add: differential_prelude_simps)
  show ?thesis
    using assms own
    by (simp add: index_identity_def differential_prelude_simps)
qed

lemma allocated_differential_prelude:
  "allocated (differential_prelude page src tgt s) = allocated s"
  by (simp add: allocated_def differential_prelude_simps)

subsection \<open>Index identity along a run\<close>

lemma in_own_bidegree_sent: "in_own_bidegree (s\<lparr>sent := m\<rparr>) = in_own_bidegree s"
  by (rule ext) (simp add: in_own_bidegree_def)

lemma sent_irrelevant:
  "index_identity (s\<lparr>sent := m\<rparr>) = index_identity s"
  "allocated (s\<lparr>sent := m\<rparr>) = allocated s"
  by (simp_all add: index_identity_def allocated_def in_own_bidegree_sent)

lemma index_identity_with_built_edge:
  assumes "index_identity s" and "allocated s"
  shows "index_identity (with_built_edge ty pg src tgt kw s)"
proof -
  let ?e = "next_ref (objs s)" and ?s' = "with_built_edge ty pg src tgt kw s"
  have fresh: "?e \<notin> set (edges (data s))"
    using assms(2) by (rule allocated_fresh)
  have ids: "map (\<lambda>r. edge_id (edge_at (objs ?s') r)) (edges (data s))
             = map (\<lambda>r. edge_id (edge_at (objs s) r)) (edges (data s))"
    using fresh by (intro map_cong refl) (auto simp: with_built_edge_simps)
  have own: "list_all (in_own_bidegree ?s') (classes (data s))
             = list_all (in_own_bidegree s) (classes (data s))"
    by (intro list.pred_cong refl in_own_bidegree_cong)
       (simp_all add: with_built_edge_simps)
  show ?thesis
    using assms(1) ids own
    by (simp add: index_identity_def with_built_edge_simps)
qed

lemma allocated_with_built_edge:
  assumes "allocated s"
  shows "allocated (with_built_edge ty pg src tgt kw s)"
  using assms by (auto simp: allocated_def with_built_edge_simps list_all_iff less_Suc_eq)

lemma after_edge_call_keeps:
  assumes "index_identity s" and "allocated s"
  shows "index_identity (snd (after_edge_call ty pg src tgt kw kw' s))
       \<and> allocated (snd (after_edge_call ty pg src tgt kw kw' s))"
  using assms
  by (simp add: after_edge_call_def sent_irrelevant index_identity_with_edge allocated_with_edge
      index_identity_with_built_edge allocated_with_built_edge)

lemma after_edge_call_extends:
  "take (length (edges (data s))) (edges (data (snd (after_edge_call ty pg src tgt kw kw' s))))
     = edges (data s)"
  by (simp add: after_edge_call_def with_edge_simps with_built_edge_simps)

lemma apply_op_eq:
  "apply_op sf (AddNode n) s = add_node_a n s"
  "map_of kw ''color'' = None \<Longrightarrow> apply_op sf (AddClass cx cy kw) s = with_class cx cy kw s"
  "apply_op sf (AddStructline src tgt kw) s
     = snd (after_edge_call ChartStructline None src tgt kw kw s)"
  "apply_op sf (AddExtension src tgt kw) s
     = snd (after_edge_call ChartExtension None src tgt kw kw s)"
  "apply_op sf (AddDifferential page src tgt auto kw) s =
     snd (after_edge_call ChartDifferential (Some page) src tgt kw ((''page'', PyInt page) # kw)
       (if auto then differential_prelude page src tgt s else s))"
  by (simp_all add: add_class_a_plain add_structline_a_eq add_extension_a_eq
      add_differential_a_eq)

lemma apply_op_keeps:
  assumes "index_identity s" and "allocated s" and "plain_op c s"
  shows "index_identity (apply_op sf c s) \<and> allocated (apply_op sf c s)"
proof (cases c)
  case (AddNode n)
  with assms show ?thesis
    by (simp add: index_identity_add_node_a allocated_add_node_a)
next
  case (AddClass cx cy kw)
  with assms show ?thesis
    by (simp add: add_class_a_plain index_identity_with_class allocated_with_class)
next
  case (AddStructline src tgt kw)
  with assms show ?thesis
    by (simp add: apply_op_eq after_edge_call_keeps del: apply_op.simps)
next
  case (AddExtension src tgt kw)
  with assms show ?thesis
    by (simp add: apply_op_eq after_edge_call_keeps del: apply_op.simps)
next
  case (AddDifferential page src tgt auto kw)
  with assms show ?thesis
    by (simp add: apply_op_eq after_edge_call_keeps
        index_identity_differential_prelude allocated_differential_prelude del: apply_op.simps)
qed

lemma apply_op_extends:
  assumes "plain_op c s"
  shows "take (length (nodes (data s))) (nodes (data (apply_op sf c s))) = nodes (data s)
       \<and> take (length (classes (data s))) (classes (data (apply_op sf c s))) = classes (data s)
       \<and> take (length (edges (data s))) (edges (data (apply_op sf c s))) = edges (data s)"
proof (cases c)
  case (AddNode n)
  then show ?thesis by (simp add: add_node_a_simps)
next
  case (AddClass cx cy kw)
  with assms show ?thesis by (simp add: add_class_a_plain with_class_simps)
next
  case (AddStructline src tgt kw)
  then show ?thesis
    by (simp add: apply_op_eq after_edge_call_state after_edge_call_extends del: apply_op.simps)
next
  case (AddExtension src tgt kw)
  then show ?thesis
    by (simp add: apply_op_eq after_edge_call_state after_edge_call_extends del: apply_op.simps)
next
  case (AddDifferential page src tgt auto kw)
  have e: "edges (data (differential_prelude page src tgt s)) = edges (data s)"
    by (simp add: differential_prelude_simps)
  from AddDifferential show ?thesis
    using after_edge_call_extends [of "differential_prelude page src tgt s" ChartDifferential
        "Some page" src tgt kw "(''page'', PyInt page) # kw"]
    by (simp add: apply_op_eq after_edge_call_state after_edge_call_extends
        differential_prelude_simps e del: apply_op.simps)
qed

lemma take_take_prefix:
  assumes "take (length xs) ys = xs" and "take (length ys) zs = ys"
  shows "take (length xs) zs = xs"
proof -
  have "length (take (length xs) ys) \<le> length ys"
    by simp
  with assms(1) have "length xs \<le> length ys"
    by simp
  then have "take (length xs) zs = take (length xs) (take (length ys) zs)"
    by (simp add: min_def)
  with assms show ?thesis by simp
qed

lemma run_keeps:
  assumes "index_identity s" and "allocated s" and "plain_run sf cs s"
  shows "index_identity (run sf cs s) \<and> allocated (run sf cs s)
       \<and> take (length (nodes (data s))) (nodes (data (run sf cs s))) = nodes (data s)
       \<and> take (length (classes (data s))) (classes (data (run sf cs s))) = classes (data s)
       \<and> take (length (edges (data s))) (edges (data (run sf cs s))) = edges (data s)"
  using assms
proof (induction cs arbitrary: s)
  case Nil
  then show ?case by simp
next
  case (Cons c cs)
  from Cons.prems have p: "plain_op c s" and r: "plain_run sf cs (apply_op sf c s)"
    by simp_all
  from apply_op_keeps [OF Cons.prems(1,2) p]
  have k: "index_identity (apply_op sf c s)" "allocated (apply_op sf c s)"
    by simp_all
  note ih = Cons.IH [OF k r]
  note ext = apply_op_extends [OF p, of sf]
  show ?case
    using ih ext by (auto intro: take_take_prefix)
qed

lemma init_keeps:
  fixes hash :: "ref \<Rightarrow> chart_node \<Rightarrow> int"
  shows "index_identity (SpectralSequenceChart_init hash nm st)"
    and "allocated (SpectralSequenceChart_init hash nm st)"
  by (simp_all add: index_identity_def allocated_def init_simps)

subsection \<open>Index identity: the claim and its amendment\<close>

lemma map_eq_Some_upt:
  "(map f xs = map Some [0 ..< length xs]) = (\<forall>i < length xs. f (xs ! i) = Some i)"
proof -
  have "(map f xs = map Some [0 ..< length xs])
        = (\<forall>i < length xs. map f xs ! i = map Some [0 ..< length xs] ! i)"
    by (subst list_eq_iff_nth_eq) simp
  also have "\<dots> = (\<forall>i < length xs. f (xs ! i) = Some i)"
    by simp
  finally show ?thesis .
qed

lemma index_identity_nth:
  "index_identity s =
     ((\<forall>i < length (nodes (data s)). idx (node_at (objs s) (nodes (data s) ! i)) = Some i)
    \<and> (\<forall>i < length (classes (data s)). class_id (class_at (objs s) (classes (data s) ! i)) = Some i)
    \<and> (\<forall>i < length (edges (data s)). edge_id (edge_at (objs s) (edges (data s) ! i)) = Some i)
    \<and> (\<forall>c \<in> set (classes (data s)).
          \<exists>cs. classes_by_bidegree (data s) (class_x (class_at (objs s) c), class_y (class_at (objs s) c))
                 = Some cs \<and> c \<in> set cs))"
  unfolding index_identity_def map_eq_Some_upt list_all_iff in_own_bidegree_def
  by (auto split: option.splits)

lemma fresh_chart_nodes: "nodes (data fresh_chart) = [0]"
  by (simp add: fresh_chart_def init_simps blank_store_def)

text \<open>
  C9 as stated fails: \<^verbatim>\<open>add_node\<close> assigns to the idx of the object it is given, so a
  node that is already in the list (here the default node, at address 0) is listed twice
  and carries idx 1 at position 0.
\<close>

theorem index_identity_counterexample:
  "nodes (data (run no_set_field [AddNode 0] fresh_chart)) = [0, 0]
   \<and> idx (node_at (objs (run no_set_field [AddNode 0] fresh_chart))
            (nodes (data (run no_set_field [AddNode 0] fresh_chart)) ! 0)) = Some 1
   \<and> \<not> index_identity (run no_set_field [AddNode 0] fresh_chart)"
  by (simp add: add_node_a_simps fresh_chart_nodes index_identity_def)

text \<open>
  C9, amended. Index identity is kept by every run of \<^verbatim>\<open>add_node\<close>, \<^verbatim>\<open>add_class\<close>,
  \<^verbatim>\<open>add_structline\<close>, \<^verbatim>\<open>add_extension\<close> and \<^verbatim>\<open>add_differential\<close> calls in which each
  \<^verbatim>\<open>add_node\<close> is given a node object that is not yet in the node list (and \<^verbatim>\<open>add_class\<close>
  no \<^verbatim>\<open>color\<close> keyword): from any chart that has it, and so from the fresh chart, the
  node at position \<open>i\<close> has idx \<open>i\<close>, the class at position \<open>i\<close> has id \<open>i\<close>, the edge at
  position \<open>i\<close> of the shared edge list has id \<open>i\<close>, and every class stands in the
  per-bidegree mapping under its own \<open>(x, y)\<close>. The three lists only grow at the end, so an
  id, once assigned, stays.
\<close>

theorem index_identity_kept:
  fixes hash :: "ref \<Rightarrow> chart_node \<Rightarrow> int"
  shows
  "(index_identity s \<and> allocated s \<and> plain_run sf cs s \<longrightarrow>
       index_identity (run sf cs s) \<and> allocated (run sf cs s)
     \<and> take (length (nodes (data s))) (nodes (data (run sf cs s))) = nodes (data s)
     \<and> take (length (classes (data s))) (classes (data (run sf cs s))) = classes (data s)
     \<and> take (length (edges (data s))) (edges (data (run sf cs s))) = edges (data s))
   \<and> (plain_run sf cs (SpectralSequenceChart_init hash nm st) \<longrightarrow>
       (let s' = run sf cs (SpectralSequenceChart_init hash nm st) in
          (\<forall>i < length (nodes (data s')). idx (node_at (objs s') (nodes (data s') ! i)) = Some i)
        \<and> (\<forall>i < length (classes (data s')).
              class_id (class_at (objs s') (classes (data s') ! i)) = Some i)
        \<and> (\<forall>i < length (edges (data s')).
              edge_id (edge_at (objs s') (edges (data s') ! i)) = Some i)
        \<and> (\<forall>c \<in> set (classes (data s')).
              \<exists>cs. classes_by_bidegree (data s')
                     (class_x (class_at (objs s') c), class_y (class_at (objs s') c)) = Some cs
                   \<and> c \<in> set cs)))"
proof -
  have "index_identity (run sf cs (SpectralSequenceChart_init hash nm st))"
    if "plain_run sf cs (SpectralSequenceChart_init hash nm st)"
    using run_keeps [OF init_keeps that] by simp
  then show ?thesis
    unfolding Let_def index_identity_nth [symmetric]
    using run_keeps [of s sf cs] by blast
qed

theorem index_identity_kept_witness:
  "index_identity fresh_chart \<and> allocated fresh_chart
   \<and> plain_run no_set_field
        [AddNode 5, AddClass 1 0 [], AddClass 0 3 [], AddDifferential 3 1 2 True []] fresh_chart
   \<and> index_identity (run no_set_field
        [AddNode 5, AddClass 1 0 [], AddClass 0 3 [], AddDifferential 3 1 2 True []] fresh_chart)
   \<and> take 1 (nodes (data (run no_set_field
        [AddNode 5, AddClass 1 0 [], AddClass 0 3 [], AddDifferential 3 1 2 True []] fresh_chart)))
       = [0]"
proof -
  have i: "index_identity fresh_chart" and a: "allocated fresh_chart"
    unfolding fresh_chart_def by (rule init_keeps)+
  have p: "plain_run no_set_field
        [AddNode 5, AddClass 1 0 [], AddClass 0 3 [], AddDifferential 3 1 2 True []] fresh_chart"
    by (simp add: fresh_chart_nodes)
  from index_identity_kept [where s = fresh_chart and sf = no_set_field
      and cs = "[AddNode 5, AddClass 1 0 [], AddClass 0 3 [], AddDifferential 3 1 2 True []]"
      and hash = "\<lambda>r n. int r" and nm = "''chart''" and st = blank_store] i a p
  have "index_identity (run no_set_field
        [AddNode 5, AddClass 1 0 [], AddClass 0 3 [], AddDifferential 3 1 2 True []] fresh_chart)"
    and "take (length (nodes (data fresh_chart))) (nodes (data (run no_set_field
        [AddNode 5, AddClass 1 0 [], AddClass 0 3 [], AddDifferential 3 1 2 True []] fresh_chart)))
       = nodes (data fresh_chart)"
    by blast+
  with i a p show ?thesis
    by (simp add: fresh_chart_nodes)
qed

subsection \<open>Setting the mode and dispatching mode commands\<close>

text \<open>
  C7 as stated fails: in any mode \<^verbatim>\<open>interact.mode.cancel\<close> has its handler,
  \<^verbatim>\<open>handle__cancel__a(self)\<close>, but with the payload 1 the call of the handler raises
  TypeError and nothing is dispatched.
\<close>

theorem mode_dispatch_counterexample:
  "''handle__cancel__a'' \<in> set (mode_handlers (mode idle_agent))
   \<and> handle__interact__mode__a \<lparr>part_list = [''interact'', ''mode'', ''cancel''], used = False\<rparr>
        [PyInt 1] [] idle_agent
       = (\<lparr>part_list = [''interact'', ''mode'', ''cancel''], used = True\<rparr>,
          Inl (TypeError ''handle__cancel__a''))"
  by (simp add: handle__interact__mode__a_def getattr_mode_def handler_params_def binds_def
      mark_used_def idle_agent_def InteractiveChartAgent_init_def)

text \<open>
  C7, amended. Handling \<^verbatim>\<open>interact.mode.set\<close> with a mode name raises the unknown-mode
  error exactly when the name is not a key of the registered mode table, and otherwise makes
  the registered mode the agent's active mode. Handling \<^verbatim>\<open>interact.mode.<subcommand>\<close>
  raises the invalid-command error exactly when the active mode has no handler under the
  name built from the subcommand; otherwise it schedules that handler with the payload when
  the payload fits the handler's parameters, and raises TypeError, scheduling nothing, when
  it does not. Every error is the result of the call, not a silent no-op, and the envelope
  is marked used in every case.
\<close>

theorem mode_commands:
  "(map_of kw ''mode'' = Some new_mode \<longrightarrow>
       (new_mode \<notin> set (map fst modes) \<longrightarrow>
          handle__interact__mode__set__a env kw a =
            (mark_used env,
             Inl (RuntimeError (''Unknown mode '' @ [CHR 0x22] @ new_mode @ [CHR 0x22] @ ''.''))))
     \<and> (\<forall>m. map_of modes new_mode = Some m \<longrightarrow>
          handle__interact__mode__set__a env kw a = (mark_used env, Inr (a\<lparr>mode := m\<rparr>)))
     \<and> ((\<exists>e. snd (handle__interact__mode__set__a env kw a) = Inl e)
          = (new_mode \<notin> set (map fst modes))))
   \<and> (let nm = ''handle__'' @ join ''__'' (drop 2 (part_list env)) @ ''__a'';
          invalid = RuntimeError (''Invalid mode command '' @ cmd_str env @ ''.'')
      in (nm \<notin> set (mode_handlers (mode a)) \<longrightarrow>
            handle__interact__mode__a env args kw' a = (mark_used env, Inl invalid))
       \<and> (nm \<in> set (mode_handlers (mode a)) \<and> binds (handler_params nm) args kw' \<longrightarrow>
            handle__interact__mode__a env args kw' a =
              (mark_used env,
               Inr (a\<lparr>scheduled := scheduled a @ [HandlerTask (mode a) nm args kw']\<rparr>)))
       \<and> (nm \<in> set (mode_handlers (mode a)) \<and> \<not> binds (handler_params nm) args kw' \<longrightarrow>
            handle__interact__mode__a env args kw' a = (mark_used env, Inl (TypeError nm)))
       \<and> ((snd (handle__interact__mode__a env args kw' a) = Inl invalid)
            = (nm \<notin> set (mode_handlers (mode a))))
       \<and> ((\<exists>e. snd (handle__interact__mode__a env args kw' a) = Inl e)
            = (nm \<notin> set (mode_handlers (mode a)) \<or> \<not> binds (handler_params nm) args kw')))"
proof -
  have none: "(map_of modes new_mode = None) = (new_mode \<notin> set (map fst modes))"
    by (simp add: map_of_eq_None_iff)
  have set_part: "map_of kw ''mode'' = Some new_mode \<longrightarrow>
       (new_mode \<notin> set (map fst modes) \<longrightarrow>
          handle__interact__mode__set__a env kw a =
            (mark_used env,
             Inl (RuntimeError (''Unknown mode '' @ [CHR 0x22] @ new_mode @ [CHR 0x22] @ ''.''))))
     \<and> (\<forall>m. map_of modes new_mode = Some m \<longrightarrow>
          handle__interact__mode__set__a env kw a = (mark_used env, Inr (a\<lparr>mode := m\<rparr>)))
     \<and> ((\<exists>e. snd (handle__interact__mode__set__a env kw a) = Inl e)
          = (new_mode \<notin> set (map fst modes)))"
    unfolding none [symmetric]
    by (cases "map_of modes new_mode")
       (simp_all add: handle__interact__mode__set__a_def Let_def)
  have str: "cmd_str (mark_used env) = cmd_str env" "part_list (mark_used env) = part_list env"
    by (simp_all add: cmd_str_def mark_used_def)
  define nm where "nm = ''handle__'' @ join ''__'' (drop 2 (part_list env)) @ ''__a''"
  define invalid where "invalid = RuntimeError (''Invalid mode command '' @ cmd_str env @ ''.'')"
  have res: "handle__interact__mode__a env args kw' a =
      (if nm \<notin> set (mode_handlers (mode a)) then (mark_used env, Inl invalid)
       else if binds (handler_params nm) args kw'
       then (mark_used env,
             Inr (a\<lparr>scheduled := scheduled a @ [HandlerTask (mode a) nm args kw']\<rparr>))
       else (mark_used env, Inl (TypeError nm)))"
    unfolding nm_def invalid_def
    by (simp add: handle__interact__mode__a_def getattr_mode_def str Let_def)
  have differ: "TypeError nm \<noteq> invalid"
    by (simp add: invalid_def)
  have mode_part:
    "(nm \<notin> set (mode_handlers (mode a)) \<longrightarrow>
            handle__interact__mode__a env args kw' a = (mark_used env, Inl invalid))
       \<and> (nm \<in> set (mode_handlers (mode a)) \<and> binds (handler_params nm) args kw' \<longrightarrow>
            handle__interact__mode__a env args kw' a =
              (mark_used env,
               Inr (a\<lparr>scheduled := scheduled a @ [HandlerTask (mode a) nm args kw']\<rparr>)))
       \<and> (nm \<in> set (mode_handlers (mode a)) \<and> \<not> binds (handler_params nm) args kw' \<longrightarrow>
            handle__interact__mode__a env args kw' a = (mark_used env, Inl (TypeError nm)))
       \<and> ((snd (handle__interact__mode__a env args kw' a) = Inl invalid)
            = (nm \<notin> set (mode_handlers (mode a))))
       \<and> ((\<exists>e. snd (handle__interact__mode__a env args kw' a) = Inl e)
            = (nm \<notin> set (mode_handlers (mode a)) \<or> \<not> binds (handler_params nm) args kw'))"
    using differ by (simp add: res)
  show ?thesis
    unfolding Let_def using set_part mode_part [unfolded nm_def invalid_def] by blast
qed

theorem mode_commands_witness:
  "map_of [(''mode'', ''AddDifferentialMode'')] ''mode'' = Some ''AddDifferentialMode''
   \<and> handle__interact__mode__set__a \<lparr>part_list = [''interact'', ''mode'', ''set''], used = False\<rparr>
        [(''mode'', ''AddDifferentialMode'')] idle_agent
       = (\<lparr>part_list = [''interact'', ''mode'', ''set''], used = True\<rparr>,
          Inr (idle_agent\<lparr>mode := AddDifferentialMode\<rparr>))
   \<and> ''Sideways'' \<notin> set (map fst modes)
   \<and> snd (handle__interact__mode__set__a \<lparr>part_list = [''interact'', ''mode'', ''set''], used = False\<rparr>
        [(''mode'', ''Sideways'')] idle_agent)
       = Inl (RuntimeError (''Unknown mode '' @ [CHR 0x22] @ ''Sideways'' @ [CHR 0x22] @ ''.''))
   \<and> binds (handler_params ''handle__cancel__a'') [] []
   \<and> snd (handle__interact__mode__a \<lparr>part_list = [''interact'', ''mode'', ''cancel''], used = False\<rparr>
        [] [] idle_agent)
       = Inr (idle_agent\<lparr>scheduled := [HandlerTask NoMode ''handle__cancel__a'' [] []]\<rparr>)
   \<and> \<not> binds (handler_params ''handle__cancel__a'') [PyStr ''now''] []
   \<and> snd (handle__interact__mode__a \<lparr>part_list = [''interact'', ''mode'', ''cancel''], used = False\<rparr>
        [PyStr ''now''] [] idle_agent)
       = Inl (TypeError ''handle__cancel__a'')
   \<and> snd (handle__interact__mode__a
        \<lparr>part_list = [''interact'', ''mode'', ''extension'', ''adjust_bend''], used = False\<rparr>
        [PyInt 1] [] idle_agent)
       = Inl (RuntimeError ''Invalid mode command interact.mode.extension.adjust_bend.'')"
proof -
  have m: "map_of modes ''AddDifferentialMode'' = Some AddDifferentialMode"
    and u: "''Sideways'' \<notin> set (map fst modes)"
    by (simp_all add: modes_def)
  have idle: "mode idle_agent = NoMode" "scheduled idle_agent = []"
    by (simp_all add: idle_agent_def InteractiveChartAgent_init_def)
  have b: "binds (handler_params ''handle__cancel__a'') [] []"
    and nb: "\<not> binds (handler_params ''handle__cancel__a'') [PyStr ''now''] []"
    by (simp_all add: handler_params_def binds_def)
  note t1 = mode_commands [where kw = "[(''mode'', ''AddDifferentialMode'')]"
      and new_mode = "''AddDifferentialMode''" and a = idle_agent
      and env = "\<lparr>part_list = [''interact'', ''mode'', ''set''], used = False\<rparr>"]
  note t2 = mode_commands [where kw = "[(''mode'', ''Sideways'')]"
      and new_mode = "''Sideways''" and a = idle_agent
      and env = "\<lparr>part_list = [''interact'', ''mode'', ''set''], used = False\<rparr>"]
  note t3 = mode_commands [where a = idle_agent and args = "[]" and kw' = "[]"
      and env = "\<lparr>part_list = [''interact'', ''mode'', ''cancel''], used = False\<rparr>",
      unfolded Let_def]
  note t4 = mode_commands [where a = idle_agent and args = "[PyInt 1]" and kw' = "[]"
      and env = "\<lparr>part_list = [''interact'', ''mode'', ''extension'', ''adjust_bend''], used = False\<rparr>",
      unfolded Let_def]
  note t5 = mode_commands [where a = idle_agent and args = "[PyStr ''now'']" and kw' = "[]"
      and env = "\<lparr>part_list = [''interact'', ''mode'', ''cancel''], used = False\<rparr>",
      unfolded Let_def]
  have a1: "handle__interact__mode__set__a \<lparr>part_list = [''interact'', ''mode'', ''set''], used = False\<rparr>
        [(''mode'', ''AddDifferentialMode'')] idle_agent
       = (mark_used \<lparr>part_list = [''interact'', ''mode'', ''set''], used = False\<rparr>,
          Inr (idle_agent\<lparr>mode := AddDifferentialMode\<rparr>))"
    using t1 m by simp
  have a2: "handle__interact__mode__set__a \<lparr>part_list = [''interact'', ''mode'', ''set''], used = False\<rparr>
        [(''mode'', ''Sideways'')] idle_agent
       = (mark_used \<lparr>part_list = [''interact'', ''mode'', ''set''], used = False\<rparr>,
          Inl (RuntimeError (''Unknown mode '' @ [CHR 0x22] @ ''Sideways'' @ [CHR 0x22] @ ''.'')))"
    using t2 u by simp
  have a3: "handle__interact__mode__a \<lparr>part_list = [''interact'', ''mode'', ''cancel''], used = False\<rparr>
        [] [] idle_agent
       = (mark_used \<lparr>part_list = [''interact'', ''mode'', ''cancel''], used = False\<rparr>,
          Inr (idle_agent\<lparr>scheduled := scheduled idle_agent @ [HandlerTask (mode idle_agent) ''handle__cancel__a'' [] []]\<rparr>))"
    using t3 b by (simp add: idle)
  have a4: "handle__interact__mode__a
        \<lparr>part_list = [''interact'', ''mode'', ''extension'', ''adjust_bend''], used = False\<rparr>
        [PyInt 1] [] idle_agent
       = (mark_used \<lparr>part_list = [''interact'', ''mode'', ''extension'', ''adjust_bend''], used = False\<rparr>,
          Inl (RuntimeError (''Invalid mode command '' @
             cmd_str \<lparr>part_list = [''interact'', ''mode'', ''extension'', ''adjust_bend''], used = False\<rparr> @ ''.'')))"
    using t4 by (simp add: idle)
  have a5: "handle__interact__mode__a \<lparr>part_list = [''interact'', ''mode'', ''cancel''], used = False\<rparr>
        [PyStr ''now''] [] idle_agent
       = (mark_used \<lparr>part_list = [''interact'', ''mode'', ''cancel''], used = False\<rparr>,
          Inl (TypeError ''handle__cancel__a''))"
    using t5 nb by (simp add: idle)
  show ?thesis
    using u b nb by (simp add: a1 a2 a3 a4 a5 mark_used_def cmd_str_def idle)
qed

subsection \<open>The second click, as an equation\<close>

lemma broadcast_a_simps:
  "data (broadcast_a cmd args s) = data s"
  "objs (broadcast_a cmd args s) = objs s"
  "sent (broadcast_a cmd args s) = sent s @ [(cmd, args)]"
  by (simp_all add: broadcast_a_def)

lemma update_a_data:
  "classes (data (update_a s)) = classes (data s)"
  "nodes (data (update_a s)) = nodes (data s)"
  by (simp_all add: update_a_def broadcast_a_def Let_def)

lemma map_of_setattr: "map_of (setattr k v kvs) k = Some v"
  by (induction kvs) auto

lemma differential_click_rejected:
  assumes "differential_source a = Some s"
    and "class_x (class_at (objs (sseq a)) s) \<noteq> class_x (class_at (objs (sseq a)) t) + 1"
  shows "AddDifferentialMode_handle_click_a px py (Some t) a = print ''invalid'' a"
  using assms by (simp add: AddDifferentialMode_handle_click_a_def Let_def)

lemma differential_click_accepted:
  assumes "differential_source a = Some s"
    and "class_x (class_at (objs (sseq a)) s) = class_x (class_at (objs (sseq a)) t) + 1"
  shows "AddDifferentialMode_handle_click_a px py (Some t) a =
     (let page = class_y (class_at (objs (sseq a)) t) - class_y (class_at (objs (sseq a)) s);
          d = next_ref (objs (sseq a));
          ch = with_edge ChartDifferential (Some page) s t [] [(''page'', PyInt page)]
                 (differential_prelude page s t (sseq a));
          ch1 = ch\<lparr>objs := upd_edge d (\<lambda>ob. ob\<lparr>edge_attrs := setattr ''color'' (PyStr ''blue'') (edge_attrs ob)\<rparr>)
                             (objs ch)\<rparr>
      in a\<lparr>console := console a @ [''success''],
           differential_source := None,
           sseq := update_a (broadcast_a ''interact.mode.set_info'' (InfoArgs (InfoText '''')) ch1)\<rparr>)"
  using assms
  by (simp add: AddDifferentialMode_handle_click_a_def sseq_add_differential_def
      add_differential_a_eq after_edge_call_ok edge_fields_ok_Nil
      set_edge_attr_def send_message_outward_a_def agent_update_a_def
      print_def differential_prelude_simps Let_def)


lemma extension_click_rejected:
  assumes "extension_source a = Some s"
    and "\<not> (class_x (class_at (objs (sseq a)) t) - class_x (class_at (objs (sseq a)) s) \<in> {0, 1, 3}
           \<and> 2 \<le> class_y (class_at (objs (sseq a)) t) - class_y (class_at (objs (sseq a)) s))"
  shows "AddExtensionMode_handle_click_a px py (Some t) answer a = print ''invalid'' a"
  using assms by (auto simp: AddExtensionMode_handle_click_a_def Let_def)

lemma extension_click_accepted:
  assumes "extension_source a = Some s"
    and "class_x (class_at (objs (sseq a)) t) - class_x (class_at (objs (sseq a)) s) \<in> {0, 1, 3}"
    and "2 \<le> class_y (class_at (objs (sseq a)) t) - class_y (class_at (objs (sseq a)) s)"
  shows "AddExtensionMode_handle_click_a px py (Some t) answer a =
     (let e = next_ref (objs (sseq a));
          ch = with_edge ChartExtension None s t [] []
                 (broadcast_a ''interact.prompt''
                    (PromptArgs ''Color?'' (extension_prev_color_default a)) (sseq a));
          ch1 = ch\<lparr>objs := upd_edge e (\<lambda>ob. ob\<lparr>edge_attrs := setattr ''color'' answer (edge_attrs ob)\<rparr>)
                             (objs ch)\<rparr>
      in a\<lparr>console := console a @ [''success''],
           extension_prev_color_default := answer,
           extension := Some e,
           extension_source := None,
           sseq := broadcast_a ''interact.mode.extension.adjust_bend'' NoArgs (update_a ch1)\<rparr>)"
proof -
  from assms(2) have x: "class_x (class_at (objs (sseq a)) t) - class_x (class_at (objs (sseq a)) s) \<in> set [0, 1, 3]"
    by simp
  from assms(3) have y: "\<not> class_y (class_at (objs (sseq a)) t) - class_y (class_at (objs (sseq a)) s) < 2"
    by simp
  show ?thesis
    unfolding AddExtensionMode_handle_click_a_def
    using assms(1) x y
    by (simp add: sseq_add_extension_def prompt_a_def
        add_extension_a_eq after_edge_call_ok edge_fields_ok_Nil
        set_edge_attr_def send_message_outward_a_def agent_update_a_def
        print_def broadcast_a_simps Let_def del: set_simps)
qed

subsection \<open>The second click in AddDifferentialMode\<close>

lemma edge_after_click:
  "edges (data (update_a (broadcast_a cmd args (ch\<lparr>objs := st\<rparr>)))) = edges (data ch)"
  "classes (data (update_a (broadcast_a cmd args (ch\<lparr>objs := st\<rparr>)))) = classes (data ch)"
  "objs (update_a (broadcast_a cmd args (ch\<lparr>objs := st\<rparr>))) = st"
  by (simp_all add: update_a_simps update_a_data broadcast_a_simps)

text \<open>
  C5. In \<^verbatim>\<open>AddDifferentialMode\<close> with a pending source \<open>s\<close>, a click that resolves to a
  class \<open>t\<close> with \<open>s.x \<noteq> t.x + 1\<close> only prints "invalid": the chart and the pending source
  stay as they were. With \<open>s.x = t.x + 1\<close> the click appends exactly one edge to the edge
  list, a differential from \<open>s\<close> to \<open>t\<close> on the page \<open>t.y - s.y\<close> with the colour blue, adds
  no class, and clears the pending source.
\<close>

theorem AddDifferentialMode_second_click:
  "differential_source a = Some s \<longrightarrow>
     (let cs = class_at (objs (sseq a)) s;
          ct = class_at (objs (sseq a)) t;
          a' = AddDifferentialMode_handle_click_a px py (Some t) a;
          d = next_ref (objs (sseq a))
      in (class_x cs \<noteq> class_x ct + 1 \<longrightarrow>
            a' = print ''invalid'' a \<and> sseq a' = sseq a \<and> differential_source a' = Some s)
       \<and> (class_x cs = class_x ct + 1 \<longrightarrow>
            edges (data (sseq a')) = edges (data (sseq a)) @ [d]
          \<and> classes (data (sseq a')) = classes (data (sseq a))
          \<and> etype (edge_at (objs (sseq a')) d) = ChartDifferential
          \<and> edge_page (edge_at (objs (sseq a')) d) = Some (class_y ct - class_y cs)
          \<and> edge_source (edge_at (objs (sseq a')) d) = s
          \<and> edge_target (edge_at (objs (sseq a')) d) = t
          \<and> map_of (edge_attrs (edge_at (objs (sseq a')) d)) ''color'' = Some (PyStr ''blue'')
          \<and> differential_source a' = None))"
proof (intro impI)
  assume src: "differential_source a = Some s"
  let ?cs = "class_at (objs (sseq a)) s" and ?ct = "class_at (objs (sseq a)) t"
  let ?a' = "AddDifferentialMode_handle_click_a px py (Some t) a"
  let ?d = "next_ref (objs (sseq a))"
  have rejected: "?a' = print ''invalid'' a \<and> sseq ?a' = sseq a \<and> differential_source ?a' = Some s"
    if "class_x ?cs \<noteq> class_x ?ct + 1"
    using src by (simp add: differential_click_rejected [OF src that] print_def)
  have accepted: "edges (data (sseq ?a')) = edges (data (sseq a)) @ [?d]
          \<and> classes (data (sseq ?a')) = classes (data (sseq a))
          \<and> etype (edge_at (objs (sseq ?a')) ?d) = ChartDifferential
          \<and> edge_page (edge_at (objs (sseq ?a')) ?d) = Some (class_y ?ct - class_y ?cs)
          \<and> edge_source (edge_at (objs (sseq ?a')) ?d) = s
          \<and> edge_target (edge_at (objs (sseq ?a')) ?d) = t
          \<and> map_of (edge_attrs (edge_at (objs (sseq ?a')) ?d)) ''color'' = Some (PyStr ''blue'')
          \<and> differential_source ?a' = None"
    if "class_x ?cs = class_x ?ct + 1"
    by (simp add: differential_click_accepted [OF src that] Let_def edge_after_click
        with_edge_simps differential_prelude_simps upd_edge_def new_edge_def map_of_setattr)
  show "let cs = ?cs; ct = ?ct; a' = ?a'; d = ?d
      in (class_x cs \<noteq> class_x ct + 1 \<longrightarrow>
            a' = print ''invalid'' a \<and> sseq a' = sseq a \<and> differential_source a' = Some s)
       \<and> (class_x cs = class_x ct + 1 \<longrightarrow>
            edges (data (sseq a')) = edges (data (sseq a)) @ [d]
          \<and> classes (data (sseq a')) = classes (data (sseq a))
          \<and> etype (edge_at (objs (sseq a')) d) = ChartDifferential
          \<and> edge_page (edge_at (objs (sseq a')) d) = Some (class_y ct - class_y cs)
          \<and> edge_source (edge_at (objs (sseq a')) d) = s
          \<and> edge_target (edge_at (objs (sseq a')) d) = t
          \<and> map_of (edge_attrs (edge_at (objs (sseq a')) d)) ''color'' = Some (PyStr ''blue'')
          \<and> differential_source a' = None)"
    unfolding Let_def using rejected accepted by blast
qed

lemma pending_differential_simps:
  "differential_source pending_differential = Some 1"
  "objs (sseq pending_differential) = objs two_class_chart"
  "data (sseq pending_differential) = data two_class_chart"
  by (simp_all add: pending_differential_def AddDifferentialMode_handle_click_a_def
      idle_agent_def InteractiveChartAgent_init_def send_message_outward_a_def print_def
      broadcast_a_simps)

theorem AddDifferentialMode_second_click_witness:
  "differential_source pending_differential = Some 1
   \<and> AddDifferentialMode_handle_click_a (0 :: int) 0 (Some 1) pending_differential
       = print ''invalid'' pending_differential
   \<and> edges (data (sseq (AddDifferentialMode_handle_click_a (0 :: int) 0 (Some 2) pending_differential)))
       = [3]
   \<and> edge_page (edge_at (objs (sseq
         (AddDifferentialMode_handle_click_a (0 :: int) 0 (Some 2) pending_differential))) 3) = Some 3
   \<and> differential_source (AddDifferentialMode_handle_click_a (0 :: int) 0 (Some 2) pending_differential)
       = None"
proof -
  note p = pending_differential_simps two_class_chart_simps
    two_class_chart_simps [unfolded One_nat_def] pending_differential_simps [unfolded One_nat_def]
  from AddDifferentialMode_second_click
    [where a = pending_differential and s = 1 and t = 1 and px = "0 :: int" and py = 0, unfolded Let_def]
  have r: "AddDifferentialMode_handle_click_a (0 :: int) 0 (Some 1) pending_differential
       = print ''invalid'' pending_differential"
    by (simp add: p)
  from AddDifferentialMode_second_click
    [where a = pending_differential and s = 1 and t = 2 and px = "0 :: int" and py = 0, unfolded Let_def]
  have "edges (data (sseq (AddDifferentialMode_handle_click_a (0 :: int) 0 (Some 2) pending_differential)))
       = [3]"
    and "edge_page (edge_at (objs (sseq
         (AddDifferentialMode_handle_click_a (0 :: int) 0 (Some 2) pending_differential))) 3) = Some 3"
    and "differential_source (AddDifferentialMode_handle_click_a (0 :: int) 0 (Some 2) pending_differential)
       = None"
    by (simp_all add: p)
  with r show ?thesis
    by (simp add: p)
qed

subsection \<open>The second click in AddExtensionMode\<close>

text \<open>
  C6. In \<^verbatim>\<open>AddExtensionMode\<close> with a pending source \<open>s\<close>, a click that resolves to a class
  \<open>t\<close> is accepted exactly when \<open>t.x - s.x\<close> is one of 0, 1, 3 and \<open>t.y - s.y \<ge> 2\<close>. A
  rejected click only prints "invalid": the chart stays as it was and the pending source
  stays set. An accepted click appends exactly one extension edge from \<open>s\<close> to \<open>t\<close> with
  the colour the prompt answered and clears the pending source. In particular the
  displacements (0, 2), (1, 2) and (3, 5) are accepted, (2, 2) and (0, 1) are rejected.
\<close>

theorem AddExtensionMode_second_click:
  "extension_source a = Some s \<longrightarrow>
     (let dx = class_x (class_at (objs (sseq a)) t) - class_x (class_at (objs (sseq a)) s);
          dy = class_y (class_at (objs (sseq a)) t) - class_y (class_at (objs (sseq a)) s);
          a' = AddExtensionMode_handle_click_a px py (Some t) answer a;
          e = next_ref (objs (sseq a))
      in (\<not> (dx \<in> {0, 1, 3} \<and> 2 \<le> dy) \<longrightarrow>
            a' = print ''invalid'' a \<and> sseq a' = sseq a \<and> extension_source a' = Some s)
       \<and> (dx \<in> {0, 1, 3} \<and> 2 \<le> dy \<longrightarrow>
            edges (data (sseq a')) = edges (data (sseq a)) @ [e]
          \<and> classes (data (sseq a')) = classes (data (sseq a))
          \<and> etype (edge_at (objs (sseq a')) e) = ChartExtension
          \<and> edge_source (edge_at (objs (sseq a')) e) = s
          \<and> edge_target (edge_at (objs (sseq a')) e) = t
          \<and> map_of (edge_attrs (edge_at (objs (sseq a')) e)) ''color'' = Some answer
          \<and> extension a' = Some e
          \<and> extension_source a' = None)
       \<and> ((extension_source a' = None) = (dx \<in> {0, 1, 3} \<and> 2 \<le> dy))
       \<and> ((dx, dy) \<in> {(0, 2), (1, 2), (3, 5)} \<longrightarrow> extension_source a' = None)
       \<and> ((dx, dy) \<in> {(2, 2), (0, 1)} \<longrightarrow> a' = print ''invalid'' a))"
proof (intro impI)
  assume src: "extension_source a = Some s"
  let ?dx = "class_x (class_at (objs (sseq a)) t) - class_x (class_at (objs (sseq a)) s)"
  let ?dy = "class_y (class_at (objs (sseq a)) t) - class_y (class_at (objs (sseq a)) s)"
  let ?a' = "AddExtensionMode_handle_click_a px py (Some t) answer a"
  let ?e = "next_ref (objs (sseq a))"
  have rejected: "?a' = print ''invalid'' a \<and> sseq ?a' = sseq a \<and> extension_source ?a' = Some s"
    if "\<not> (?dx \<in> {0, 1, 3} \<and> 2 \<le> ?dy)"
    using src by (simp add: extension_click_rejected [OF src that] print_def)
  have accepted: "edges (data (sseq ?a')) = edges (data (sseq a)) @ [?e]
          \<and> classes (data (sseq ?a')) = classes (data (sseq a))
          \<and> etype (edge_at (objs (sseq ?a')) ?e) = ChartExtension
          \<and> edge_source (edge_at (objs (sseq ?a')) ?e) = s
          \<and> edge_target (edge_at (objs (sseq ?a')) ?e) = t
          \<and> map_of (edge_attrs (edge_at (objs (sseq ?a')) ?e)) ''color'' = Some answer
          \<and> extension ?a' = Some ?e
          \<and> extension_source ?a' = None"
    if "?dx \<in> {0, 1, 3}" and "2 \<le> ?dy"
    by (simp add: extension_click_accepted [OF src that] Let_def update_a_simps update_a_data
        broadcast_a_simps with_edge_simps upd_edge_def new_edge_def map_of_setattr)
  have iff: "(extension_source ?a' = None) = (?dx \<in> {0, 1, 3} \<and> 2 \<le> ?dy)"
    using rejected accepted by (cases "?dx \<in> {0, 1, 3} \<and> 2 \<le> ?dy") auto
  have listed: "extension_source ?a' = None" if "(?dx, ?dy) \<in> {(0, 2), (1, 2), (3, 5)}"
  proof -
    from that have "?dx \<in> {0, 1, 3} \<and> 2 \<le> ?dy" by auto
    with iff show ?thesis by simp
  qed
  have unlisted: "?a' = print ''invalid'' a" if "(?dx, ?dy) \<in> {(2, 2), (0, 1)}"
  proof -
    from that have "\<not> (?dx \<in> {0, 1, 3} \<and> 2 \<le> ?dy)" by auto
    with rejected show ?thesis by simp
  qed
  show "let dx = ?dx; dy = ?dy; a' = ?a'; e = ?e
      in (\<not> (dx \<in> {0, 1, 3} \<and> 2 \<le> dy) \<longrightarrow>
            a' = print ''invalid'' a \<and> sseq a' = sseq a \<and> extension_source a' = Some s)
       \<and> (dx \<in> {0, 1, 3} \<and> 2 \<le> dy \<longrightarrow>
            edges (data (sseq a')) = edges (data (sseq a)) @ [e]
          \<and> classes (data (sseq a')) = classes (data (sseq a))
          \<and> etype (edge_at (objs (sseq a')) e) = ChartExtension
          \<and> edge_source (edge_at (objs (sseq a')) e) = s
          \<and> edge_target (edge_at (objs (sseq a')) e) = t
          \<and> map_of (edge_attrs (edge_at (objs (sseq a')) e)) ''color'' = Some answer
          \<and> extension a' = Some e
          \<and> extension_source a' = None)
       \<and> ((extension_source a' = None) = (dx \<in> {0, 1, 3} \<and> 2 \<le> dy))
       \<and> ((dx, dy) \<in> {(0, 2), (1, 2), (3, 5)} \<longrightarrow> extension_source a' = None)
       \<and> ((dx, dy) \<in> {(2, 2), (0, 1)} \<longrightarrow> a' = print ''invalid'' a)"
    unfolding Let_def using rejected accepted iff listed unlisted by blast
qed


lemma three_class_chart_eq:
  "three_class_chart = with_class 2 2 [] (with_class 3 5 [] (with_class 0 0 [] fresh_chart))"
  by (simp add: three_class_chart_def add_class_a_plain)

lemma three_class_chart_simps:
  "edges (data three_class_chart) = []"
  "next_ref (objs three_class_chart) = 4"
  "class_x (class_at (objs three_class_chart) (Suc 0)) = 0"
  "class_y (class_at (objs three_class_chart) (Suc 0)) = 0"
  "class_x (class_at (objs three_class_chart) 2) = 3"
  "class_y (class_at (objs three_class_chart) 2) = 5"
  "class_x (class_at (objs three_class_chart) 3) = 2"
  "class_y (class_at (objs three_class_chart) 3) = 2"
  by (simp_all add: three_class_chart_eq with_class_simps fresh_chart_def init_simps
      new_class_def blank_store_def)

lemma pending_extension_simps:
  "extension_source pending_extension = Some (Suc 0)"
  "objs (sseq pending_extension) = objs three_class_chart"
  "data (sseq pending_extension) = data three_class_chart"
  by (simp_all add: pending_extension_def AddExtensionMode_handle_click_a_def
      InteractiveChartAgent_init_def send_message_outward_a_def print_def broadcast_a_simps)

theorem AddExtensionMode_second_click_witness:
  "extension_source pending_extension = Some 1
   \<and> AddExtensionMode_handle_click_a (0 :: int) 0 (Some 3) (PyStr ''red'') pending_extension
       = print ''invalid'' pending_extension
   \<and> edges (data (sseq (AddExtensionMode_handle_click_a (0 :: int) 0 (Some 2) (PyStr ''red'')
         pending_extension))) = [4]
   \<and> extension_source (AddExtensionMode_handle_click_a (0 :: int) 0 (Some 2) (PyStr ''red'')
         pending_extension) = None"
proof -
  note p = pending_extension_simps three_class_chart_simps
  from AddExtensionMode_second_click
    [where a = pending_extension and s = 1 and t = 3 and px = "0 :: int" and py = 0
       and answer = "PyStr ''red''", unfolded Let_def]
  have r: "AddExtensionMode_handle_click_a (0 :: int) 0 (Some 3) (PyStr ''red'') pending_extension
       = print ''invalid'' pending_extension"
    by (simp add: p)
  from AddExtensionMode_second_click
    [where a = pending_extension and s = 1 and t = 2 and px = "0 :: int" and py = 0
       and answer = "PyStr ''red''", unfolded Let_def]
  have "edges (data (sseq (AddExtensionMode_handle_click_a (0 :: int) 0 (Some 2) (PyStr ''red'')
         pending_extension))) = [4]"
    and "extension_source (AddExtensionMode_handle_click_a (0 :: int) 0 (Some 2) (PyStr ''red'')
         pending_extension) = None"
    by (simp_all add: p)
  with r show ?thesis
    by (simp add: p)
qed

end
